theory Spec2Isabelle
  imports Main "HOL-Library.AList"
begin

section \<open>The backend-access layer of \<open>contentcuration/automation/utils/appnexus/base.py\<close>\<close>

text \<open>
  A shallow embedding of the module: the session with a maximum connection age, the
  request and response objects, the singleton backend base class with its URL
  construction, its dispatch with retries and its error mapping.

  Python values are modelled as follows. A \<open>str\<close> is a \<open>string\<close>; an attribute that
  is either \<open>None\<close> or a \<open>str\<close> is a \<open>string option\<close>; an \<open>int\<close> is an \<open>int\<close>;
  an exception that leaves a function is the \<open>Inl\<close> of a sum. Mutation of an object is
  explicit state passing: a function returns the objects it has changed.
\<close>

subsection \<open>Strings\<close>

text \<open>\<open>s.lstrip("/")\<close>: every leading slash is removed.\<close>

definition lstrip_slash :: "string \<Rightarrow> string" where
  "lstrip_slash s = dropWhile (\<lambda>c. c = CHR ''/'') s"

text \<open>\<open>s.rstrip("/")\<close>: every trailing slash is removed.\<close>

definition rstrip_slash :: "string \<Rightarrow> string" where
  "rstrip_slash s = rev (dropWhile (\<lambda>c. c = CHR ''/'') (rev s))"

text \<open>\<open>sep.join(parts)\<close>.\<close>

fun join :: "string \<Rightarrow> string list \<Rightarrow> string" where
  "join sep [] = []"
| "join sep [x] = x"
| "join sep (x # y # ys) = x @ sep @ join sep (y # ys)"

subsection \<open>Python values\<close>

text \<open>
  The values that keyword arguments and parsed JSON bodies hold. A \<open>dict\<close> with string
  keys is an association list in insertion order, each key once. \<open>PObj\<close> stands for any
  other object that is neither a class nor a \<open>dict\<close> (a float, a callable, ...), named
  by its \<open>repr\<close>.
\<close>

datatype pyval =
    PNone
  | PBool bool
  | PInt int
  | PStr string
  | PList "pyval list"
  | PDict "(string \<times> pyval) list"
  | PObj string

text \<open>The attributes of an object whose class sets them with \<open>setattr\<close>.\<close>

type_synonym attrs = "string \<rightharpoonup> pyval"

subsection \<open>Exceptions\<close>

text \<open>
  The classes of \<open>requests.exceptions\<close>. The library is not part of the repository;
  \<open>requests_mro\<close> is the method resolution order its class statements give, restricted
  to the classes of that module: \<open>RequestException\<close> is the base of every other class,
  \<open>SSLError\<close> and \<open>ProxyError\<close> derive from \<open>ConnectionError\<close>, \<open>ConnectTimeout\<close>
  from \<open>ConnectionError\<close> and \<open>Timeout\<close>, \<open>ReadTimeout\<close> from \<open>Timeout\<close>.
\<close>

datatype requests_exception =
    requests_RequestException
  | requests_InvalidJSONError
  | requests_JSONDecodeError
  | requests_HTTPError
  | requests_ConnectionError
  | requests_ProxyError
  | requests_SSLError
  | requests_Timeout
  | requests_ConnectTimeout
  | requests_ReadTimeout
  | requests_URLRequired
  | requests_TooManyRedirects
  | requests_MissingSchema
  | requests_InvalidSchema
  | requests_InvalidURL
  | requests_InvalidProxyURL
  | requests_InvalidHeader
  | requests_ChunkedEncodingError
  | requests_ContentDecodingError
  | requests_StreamConsumedError
  | requests_RetryError
  | requests_UnrewindableBodyError

fun requests_mro :: "requests_exception \<Rightarrow> requests_exception list" where
  "requests_mro requests_RequestException = [requests_RequestException]"
| "requests_mro requests_JSONDecodeError =
     [requests_JSONDecodeError, requests_InvalidJSONError, requests_RequestException]"
| "requests_mro requests_ProxyError =
     [requests_ProxyError, requests_ConnectionError, requests_RequestException]"
| "requests_mro requests_SSLError =
     [requests_SSLError, requests_ConnectionError, requests_RequestException]"
| "requests_mro requests_ConnectTimeout =
     [requests_ConnectTimeout, requests_ConnectionError, requests_Timeout,
      requests_RequestException]"
| "requests_mro requests_ReadTimeout =
     [requests_ReadTimeout, requests_Timeout, requests_RequestException]"
| "requests_mro requests_InvalidProxyURL =
     [requests_InvalidProxyURL, requests_InvalidURL, requests_RequestException]"
| "requests_mro c = [c, requests_RequestException]"

text \<open>
  An exception raised by the transport: an instance of a class of \<open>requests.exceptions\<close>
  or of any other class that derives from \<open>Exception\<close>, with its message. Signals that
  derive from \<open>BaseException\<close> only (a keyboard interrupt, an interpreter exit) are not
  failures of a request and are outside the model.
\<close>

datatype py_exception =
    RequestsException requests_exception string
  | OtherException string

text \<open>\<open>except (c1, c2, ...)\<close> matches an instance of a subclass of one of the classes.\<close>

definition except_matches :: "requests_exception \<Rightarrow> requests_exception list \<Rightarrow> bool" where
  "except_matches x classes = list_ex (\<lambda>c. c \<in> set (requests_mro x)) classes"

text \<open>
  What leaves the functions of this module. The classes of the \<open>errors\<close> module carry
  their message.

  Modelled from the spec: the module \<open>errors\<close> (imported as \<open>from . import errors\<close>) is
  not among the sources; its classes \<open>ConnectionError\<close>, \<open>TimeoutError\<close>, \<open>HttpError\<close>,
  \<open>InvalidRequest\<close> and \<open>InvalidResponse\<close> are the closed taxonomy of the
  specification, distinct kinds, each an \<open>Exception\<close>.
\<close>

datatype error =
    errors_ConnectionError string
  | errors_TimeoutError string
  | errors_HttpError string
  | errors_InvalidRequest string
  | errors_InvalidResponse string
  | NotImplementedError string
  | TypeError
  | AttributeError
  | RecursionError
  | Propagated py_exception

text \<open>\<open>except Exception\<close>: every class above derives from \<open>Exception\<close>.\<close>

fun is_Exception :: "error \<Rightarrow> bool" where
  "is_Exception (errors_ConnectionError m) = True"
| "is_Exception (errors_TimeoutError m) = True"
| "is_Exception (errors_HttpError m) = True"
| "is_Exception (errors_InvalidRequest m) = True"
| "is_Exception (errors_InvalidResponse m) = True"
| "is_Exception (NotImplementedError m) = True"
| "is_Exception TypeError = True"
| "is_Exception AttributeError = True"
| "is_Exception RecursionError = True"
| "is_Exception (Propagated x) = True"

subsection \<open>The environment: clock, transport, log\<close>

text \<open>
  A response of the transport, as far as this module reads it: the status code and
  what \<open>response.json()\<close> does, which either raises a \<open>ValueError\<close> (with its message)
  or returns the parsed body.
\<close>

record response =
  status_code :: int
  response_json :: "string + pyval"

datatype outcome = Returns response | Raises py_exception

text \<open>The arguments of one call of \<open>requests.Session.request\<close>, and the handle it used.\<close>

record sent_request =
  via_handle :: nat
  sent_method :: string
  sent_url :: string
  sent_params :: pyval
  sent_data :: pyval
  sent_headers :: pyval
  sent_json :: pyval

datatype log_entry = logging_error string | logging_warning string

text \<open>
  The world outside the module. \<open>clock\<close> lists the successive results of
  \<open>time.time()\<close> and \<open>reads\<close> counts the calls so far; \<open>transport\<close> lists the
  outcomes of the successive calls of \<open>requests.Session.request\<close>, and \<open>sent\<close> records
  those calls, oldest first. The type \<open>'t\<close> of a time is left open: the module
  subtracts and compares times and nothing else.

  \<open>frames_left\<close> is what the recursion limit of the interpreter leaves: the number of
  further nested calls of \<open>_make_request\<close> that can still be made below the running one.
  A \<open>RecursionError\<close> that is raised deeper, inside the library's request, is one of the
  transport's other exceptions.
\<close>

record 't env =
  clock :: "nat \<Rightarrow> 't"
  reads :: nat
  transport :: "nat \<Rightarrow> outcome"
  sent :: "sent_request list"
  log :: "log_entry list"
  frames_left :: nat

definition time_time :: "'t env \<Rightarrow> 't \<times> 't env" where
  "time_time e = (clock e (reads e), e\<lparr>reads := Suc (reads e)\<rparr>)"

definition logging :: "log_entry \<Rightarrow> 't env \<Rightarrow> 't env" where
  "logging entry e = e\<lparr>log := log e @ [entry]\<rparr>"

subsection \<open>\<open>SessionWithMaxConnectionAge\<close>\<close>

text \<open>
  The session object. \<open>requests.Session.__init__\<close> builds new transport adapters:
  \<open>handle\<close> numbers them, so two handles of one session are the same instance iff
  their numbers are equal. \<open>closed_handles\<close> lists the handles that \<open>close()\<close> has
  closed.
\<close>

record 't SessionWithMaxConnectionAge =
  age :: 't
  last_used :: 't
  handle :: nat
  closed_handles :: "nat list"

text \<open>\<open>requests.Session.close(self)\<close> and \<open>requests.Session.__init__(self)\<close>.\<close>

definition Session_close :: "'t SessionWithMaxConnectionAge \<Rightarrow> 't SessionWithMaxConnectionAge" where
  "Session_close self = self\<lparr>closed_handles := handle self # closed_handles self\<rparr>"

definition Session_init :: "'t SessionWithMaxConnectionAge \<Rightarrow> 't SessionWithMaxConnectionAge" where
  "Session_init self = self\<lparr>handle := Suc (handle self)\<rparr>"

text \<open>\<open>SessionWithMaxConnectionAge.__init__(self, age)\<close>.\<close>

definition SessionWithMaxConnectionAge_init ::
  "'t SessionWithMaxConnectionAge \<Rightarrow> 't \<Rightarrow> 't env \<Rightarrow> 't SessionWithMaxConnectionAge \<times> 't env" where
  "SessionWithMaxConnectionAge_init self a e =
     (let self = self\<lparr>age := a\<rparr>;
          (t, e) = time_time e;
          self = self\<lparr>last_used := t\<rparr>
      in (Session_init self, e))"

text \<open>
  \<open>SessionWithMaxConnectionAge(age)\<close>: \<open>__init__\<close> on a new object, which has no
  handle yet; \<open>__init__\<close> sets both times before anything reads them.
\<close>

definition SessionWithMaxConnectionAge_new ::
  "'t \<Rightarrow> 't env \<Rightarrow> 't SessionWithMaxConnectionAge \<times> 't env" where
  "SessionWithMaxConnectionAge_new a e =
     SessionWithMaxConnectionAge_init
       \<lparr>age = a, last_used = a, handle = 0, closed_handles = []\<rparr> a e"

text \<open>\<open>requests.Session.request\<close>: the call goes out over the current handle.\<close>

definition Session_request ::
  "'t SessionWithMaxConnectionAge \<Rightarrow> string \<Rightarrow> string \<Rightarrow> pyval \<Rightarrow> pyval \<Rightarrow> pyval \<Rightarrow> pyval \<Rightarrow>
   't env \<Rightarrow> outcome \<times> 't SessionWithMaxConnectionAge \<times> 't env" where
  "Session_request self m url ps d hs j e =
     (transport e (length (sent e)), self,
      e\<lparr>sent := sent e @
         [\<lparr>via_handle = handle self, sent_method = m, sent_url = url, sent_params = ps,
           sent_data = d, sent_headers = hs, sent_json = j\<rparr>]\<rparr>)"

text \<open>\<open>SessionWithMaxConnectionAge.request(self, *args, **kwargs)\<close>.\<close>

definition SessionWithMaxConnectionAge_request ::
  "('t::{minus,ord}) SessionWithMaxConnectionAge \<Rightarrow> string \<Rightarrow> string \<Rightarrow> pyval \<Rightarrow> pyval \<Rightarrow>
   pyval \<Rightarrow> pyval \<Rightarrow> 't env \<Rightarrow> outcome \<times> 't SessionWithMaxConnectionAge \<times> 't env" where
  "SessionWithMaxConnectionAge_request self m url ps d hs j e =
     (let (current_time, e) = time_time e;
          (self, e) = (if current_time - last_used self > age self
                       then SessionWithMaxConnectionAge_init (Session_close self) (age self) e
                       else (self, e));
          self = self\<lparr>last_used := current_time\<rparr>
      in Session_request self m url ps d hs j e)"

subsection \<open>\<open>BackendRequest\<close> and \<open>BackendResponse\<close>\<close>

text \<open>
  \<open>setattr(self, key, value)\<close> on an instance of a plain class. Three names are data
  descriptors of \<open>object\<close> and do not go to the instance dictionary: \<open>__class__\<close> must
  be set to a class and \<open>__dict__\<close> to a \<open>dict\<close> (a \<open>TypeError\<close> otherwise),
  \<open>__weakref__\<close> is not writable (an \<open>AttributeError\<close>). Setting \<open>__dict__\<close> to a
  \<open>dict\<close> makes that the instance dictionary: the attributes set before are gone. Every
  other name is stored in the instance dictionary.
\<close>

definition special_attribute :: "string \<Rightarrow> bool" where
  "special_attribute key \<longleftrightarrow> key \<in> set [''__class__'', ''__dict__'', ''__weakref__'']"

definition setattr :: "attrs \<Rightarrow> string \<Rightarrow> pyval \<Rightarrow> error + attrs" where
  "setattr self key v =
     (if key = ''__class__'' then Inl TypeError
      else if key = ''__weakref__'' then Inl AttributeError
      else if key = ''__dict__''
      then (case v of PDict d \<Rightarrow> Inr (map_of d) | _ \<Rightarrow> Inl TypeError)
      else Inr (self(key \<mapsto> v)))"

text \<open>\<open>for key, value in kwargs.items(): setattr(self, key, value)\<close>.\<close>

fun setattrs :: "(string \<times> pyval) list \<Rightarrow> attrs \<Rightarrow> error + attrs" where
  "setattrs [] self = Inr self"
| "setattrs ((key, v) # kwargs) self =
     (case setattr self key v of
        Inl err \<Rightarrow> Inl err
      | Inr self \<Rightarrow> setattrs kwargs self)"

text \<open>
  \<open>BackendRequest.__init__\<close>, with its named parameters bound and the remaining keyword
  arguments in \<open>kwargs\<close>. The result is the attributes of the new object.
\<close>

definition BackendRequest_init ::
  "pyval \<Rightarrow> pyval \<Rightarrow> pyval \<Rightarrow> pyval \<Rightarrow> pyval \<Rightarrow> pyval \<Rightarrow> pyval \<Rightarrow> (string \<times> pyval) list \<Rightarrow>
   error + attrs" where
  "BackendRequest_init m p ps d j hs mr kwargs =
     (let self = Map.empty;
          self = self(''method'' \<mapsto> m);
          self = self(''path'' \<mapsto> p);
          self = self(''params'' \<mapsto> ps);
          self = self(''data'' \<mapsto> d);
          self = self(''json'' \<mapsto> j);
          self = self(''headers'' \<mapsto> hs);
          self = self(''max_retries'' \<mapsto> mr);
          self = self(''tried'' \<mapsto> PInt 0)
      in setattrs kwargs self)"

text \<open>
  The call \<open>BackendRequest(method, path, params, data, json, headers, max_retries,
  **kwargs)\<close> with the seven parameters given: a further keyword that names \<open>self\<close> or
  one of the seven gives that parameter a second value, and the call raises a
  \<open>TypeError\<close> before \<open>__init__\<close> runs.
\<close>

definition BackendRequest_parameters :: "string list" where
  "BackendRequest_parameters =
     [''self'', ''method'', ''path'', ''params'', ''data'', ''json'', ''headers'', ''max_retries'']"

definition BackendRequest_call ::
  "pyval \<Rightarrow> pyval \<Rightarrow> pyval \<Rightarrow> pyval \<Rightarrow> pyval \<Rightarrow> pyval \<Rightarrow> pyval \<Rightarrow> (string \<times> pyval) list \<Rightarrow>
   error + attrs" where
  "BackendRequest_call m p ps d j hs mr kwargs =
     (if list_ex (\<lambda>key. key \<in> set BackendRequest_parameters) (map fst kwargs)
      then Inl TypeError
      else BackendRequest_init m p ps d j hs mr kwargs)"

text \<open>
  \<open>BackendResponse(**info)\<close>: a key \<open>self\<close> collides with the first parameter of
  \<open>__init__\<close> and the call raises a \<open>TypeError\<close>; otherwise \<open>__init__\<close> sets one
  attribute per item.
\<close>

definition BackendResponse_init :: "(string \<times> pyval) list \<Rightarrow> error + attrs" where
  "BackendResponse_init kwargs = setattrs kwargs Map.empty"

definition BackendResponse :: "(string \<times> pyval) list \<Rightarrow> error + attrs" where
  "BackendResponse info =
     (if ''self'' \<in> set (map fst info) then Inl TypeError
      else BackendResponse_init info)"

text \<open>
  The request as the dispatch reads it: a method, a path that is \<open>None\<close> or a
  string, the four payloads, and two integers. \<open>as_request\<close> reads these off the
  attributes of a \<open>BackendRequest\<close> (\<open>http_method\<close> is the attribute \<open>method\<close>);
  attributes of other types are outside what the dispatch is modelled on.
\<close>

record BackendRequest =
  http_method :: string
  path :: "string option"
  params :: pyval
  data :: pyval
  json :: pyval
  headers :: pyval
  max_retries :: int
  tried :: int

definition as_request :: "attrs \<Rightarrow> BackendRequest option" where
  "as_request self =
     (case (self ''method'', self ''path'', self ''params'', self ''data'', self ''json'',
            self ''headers'', self ''max_retries'', self ''tried'') of
        (Some (PStr m), Some p, Some ps, Some d, Some j, Some hs, Some (PInt mr), Some (PInt t)) \<Rightarrow>
          (case p of
             PNone \<Rightarrow> Some \<lparr>http_method = m, path = None, params = ps, data = d, json = j,
                              headers = hs, max_retries = mr, tried = t\<rparr>
           | PStr s \<Rightarrow> Some \<lparr>http_method = m, path = Some s, params = ps, data = d, json = j,
                               headers = hs, max_retries = mr, tried = t\<rparr>
           | _ \<Rightarrow> None)
      | _ \<Rightarrow> None)"

subsection \<open>\<open>Backend\<close>\<close>

text \<open>
  A concrete subclass of \<open>Backend\<close>, identified by its name. \<open>ancestors\<close> names the
  subclasses of \<open>Backend\<close> it derives from, nearest first (empty for a direct
  subclass). \<open>base_url\<close> and \<open>connect_endpoint\<close> are its class attributes, \<open>None\<close>
  where it inherits the base's. \<open>create_instance\<close> says what its \<open>_create_instance\<close>
  does: \<open>Some p\<close> when it returns \<open>cls(p)\<close>, \<open>None\<close> when the subclass inherits the
  base's, which raises \<open>NotImplementedError\<close>.
\<close>

record backend_class =
  cname :: string
  ancestors :: "string list"
  base_url :: "string option"
  connect_endpoint :: "string option"
  create_instance :: "string option"

text \<open>An instance: its class and its two instance attributes (\<open>session\<close> is \<open>None\<close>
  until \<open>__init__\<close> has run, as the class attribute says).\<close>

record 't Backend =
  klass :: backend_class
  url_prefix :: string
  session :: "'t SessionWithMaxConnectionAge option"

subsection \<open>URL construction\<close>

text \<open>
  \<open>Backend._construct_full_url(self, path)\<close>. The leading underscore of a Python
  name is written \<open>p_\<close>.
\<close>

definition p_construct_full_url :: "'t Backend \<Rightarrow> string option \<Rightarrow> string" where
  "p_construct_full_url self pth =
     (let url_array = [];
          url_array = (case base_url (klass self) of
                         None \<Rightarrow> url_array
                       | Some b \<Rightarrow> if b \<noteq> [] then url_array @ [rstrip_slash b] else url_array);
          url_array = (if url_prefix self \<noteq> []
                       then url_array @ [lstrip_slash (rstrip_slash (url_prefix self))]
                       else url_array);
          url_array = (case pth of
                         None \<Rightarrow> url_array
                       | Some p \<Rightarrow> if p \<noteq> [] then url_array @ [lstrip_slash p] else url_array)
      in join ''/'' url_array)"

text \<open>
  The construction as the specification words it: the three parts in order, each
  only if it is non-empty, each stripped of its slashes, the parts joined with a slash.
\<close>

definition spec_buildFullUrl :: "string \<Rightarrow> string \<Rightarrow> string \<Rightarrow> string" where
  "spec_buildFullUrl baseUrl urlPrefix pth =
     join ''/'' (map snd (filter fst
       [(baseUrl \<noteq> [], rstrip_slash baseUrl),
        (urlPrefix \<noteq> [], lstrip_slash (rstrip_slash urlPrefix)),
        (pth \<noteq> [], lstrip_slash pth)]))"

subsection \<open>Dispatch\<close>

text \<open>
  \<open>Backend._make_request(self, request)\<close>. The result is what the call returns or
  raises, the request (whose \<open>tried\<close> it has changed), the backend (whose session it has
  used) and the environment. The \<open>except\<close> clauses are tried in the order of the source.
  An exception raised inside a handler, the one of the recursive call included, leaves
  the function. The retry is a nested call: when the recursion limit leaves no frame
  for it, it raises a \<open>RecursionError\<close>; when it returns, the frames are back.
\<close>

function p_make_request ::
  "('t::{minus,ord}) Backend \<Rightarrow> BackendRequest \<Rightarrow> 't env \<Rightarrow>
   (error + response) \<times> BackendRequest \<times> 't Backend \<times> 't env" where
  "p_make_request self request e =
     (let url = p_construct_full_url self (path request);
          request = request\<lparr>tried := tried request + 1\<rparr>
      in case session self of
           None \<Rightarrow> (Inl AttributeError, request, self, e)
         | Some s \<Rightarrow>
             (case SessionWithMaxConnectionAge_request s (http_method request) url (params request)
                     (data request) (headers request) (json request) e of
                (result, s, e) \<Rightarrow>
                  (let self = self\<lparr>session := Some s\<rparr>
                   in case result of
                        Returns r \<Rightarrow> (Inr r, request, self, e)
                      | Raises (OtherException msg) \<Rightarrow>
                          (Inl (Propagated (OtherException msg)), request, self, e)
                      | Raises (RequestsException x msg) \<Rightarrow>
                          if except_matches x
                               [requests_ConnectionError, requests_RequestException]
                          then
                            if tried request \<ge> max_retries request
                            then (Inl (errors_ConnectionError ''Connection error occurred.''),
                                  request, self, logging (logging_error msg) e)
                            else
                              (let e = logging (logging_warning
                                         (''Connection error occurred. Retrying request to '' @ url)) e
                               in if frames_left e = 0
                                  then (Inl RecursionError, request, self, e)
                                  else (case p_make_request self request
                                               (e\<lparr>frames_left := frames_left e - 1\<rparr>) of
                                          (result, request, self, e') \<Rightarrow>
                                            (result, request, self,
                                             e'\<lparr>frames_left := frames_left e\<rparr>)))
                          else if except_matches x [requests_SSLError]
                          then (Inl (errors_ConnectionError (''Unable to connect to '' @ url)),
                                request, self, logging (logging_error msg) e)
                          else if except_matches x
                               [requests_Timeout, requests_ConnectTimeout, requests_ReadTimeout]
                          then (Inl (errors_TimeoutError
                                       (''Timeout occurred while connecting to '' @ url)),
                                request, self, logging (logging_error msg) e)
                          else if except_matches x
                               [requests_TooManyRedirects, requests_HTTPError]
                          then (Inl (errors_HttpError
                                       (''HTTP error occurred while connecting to '' @ url)),
                                request, self, logging (logging_error msg) e)
                          else if except_matches x
                               [requests_URLRequired, requests_MissingSchema,
                                requests_InvalidSchema, requests_InvalidURL,
                                requests_InvalidHeader, requests_InvalidJSONError]
                          then (Inl (errors_InvalidRequest (''Invalid request to '' @ url)),
                                request, self, logging (logging_error msg) e)
                          else if except_matches x
                               [requests_ContentDecodingError, requests_ChunkedEncodingError]
                          then (Inl (errors_InvalidResponse (''Invalid response from '' @ url)),
                                request, self, logging (logging_error msg) e)
                          else (Inl (Propagated (RequestsException x msg)), request, self, e))))"
  by pat_completeness auto
termination
  by (relation "measure (\<lambda>(self, request, e). nat (max_retries request - tried request))") auto

text \<open>The equation of \<open>p_make_request\<close> is unfolded where a proof says so.\<close>

declare p_make_request.simps [simp del]

subsection \<open>\<open>connect\<close> and \<open>make_request\<close>\<close>

text \<open>The body of the \<open>try\<close> of \<open>Backend.connect(self)\<close>.\<close>

definition connect_try :: "('t::{minus,ord}) Backend \<Rightarrow> 't env \<Rightarrow> (error + bool) \<times> 't Backend \<times> 't env" where
  "connect_try self e =
     (case BackendRequest_call (PStr ''GET'')
             (case connect_endpoint (klass self) of None \<Rightarrow> PNone | Some p \<Rightarrow> PStr p)
             PNone PNone PNone PNone (PInt 1) [] of
        Inl err \<Rightarrow> (Inl err, self, e)
      | Inr obj \<Rightarrow>
          (case as_request obj of
             None \<Rightarrow> (Inl TypeError, self, e)
           | Some request \<Rightarrow>
               (case p_make_request self request e of
                  (Inl err, request, self, e) \<Rightarrow> (Inl err, self, e)
                | (Inr response, request, self, e) \<Rightarrow>
                    if status_code response \<noteq> 200 then (Inr False, self, e)
                    else (Inr True, self, e))))"

text \<open>\<open>Backend.connect(self)\<close>: \<open>except Exception\<close> turns what the body raises into
  \<open>False\<close>.\<close>

definition connect :: "('t::{minus,ord}) Backend \<Rightarrow> 't env \<Rightarrow> (error + bool) \<times> 't Backend \<times> 't env" where
  "connect self e =
     (case connect_try self e of
        (Inl err, self, e) \<Rightarrow> if is_Exception err then (Inr False, self, e) else (Inl err, self, e)
      | (Inr b, self, e) \<Rightarrow> (Inr b, self, e))"

text \<open>
  What a caller passes as the first argument of \<open>make_request\<close>: the parameter is
  named \<open>path\<close>, and it is handed on as the \<open>request\<close> of \<open>_make_request\<close>.
\<close>

datatype make_request_arg = PathStr string | RequestObj BackendRequest

text \<open>
  \<open>Backend.make_request(self, path, **kwargs)\<close>. The call
  \<open>self._make_request(path, **kwargs)\<close> raises a \<open>TypeError\<close> when there is a keyword
  argument, since \<open>_make_request\<close> has the one parameter \<open>request\<close>, already bound;
  \<open>request.path\<close> raises an \<open>AttributeError\<close> on a \<open>str\<close>. In the \<open>try\<close>,
  \<open>info.update\<close> raises an \<open>AttributeError\<close> when the parsed body is not a \<open>dict\<close>; only a
  \<open>ValueError\<close> is caught.
\<close>

definition make_request ::
  "('t::{minus,ord}) Backend \<Rightarrow> make_request_arg \<Rightarrow> (string \<times> pyval) list \<Rightarrow> 't env \<Rightarrow>
   (error + attrs) \<times> make_request_arg \<times> 't Backend \<times> 't env" where
  "make_request self pth kwargs e =
     (if kwargs \<noteq> [] then (Inl TypeError, pth, self, e)
      else case pth of
        PathStr s \<Rightarrow> (Inl AttributeError, pth, self, e)
      | RequestObj request \<Rightarrow>
          (case p_make_request self request e of
             (Inl err, request, self, e) \<Rightarrow> (Inl err, RequestObj request, self, e)
           | (Inr response, request, self, e) \<Rightarrow>
               (case response_json response of
                  Inl msg \<Rightarrow>
                    (Inl (errors_InvalidResponse ''Invalid response from backend''),
                     RequestObj request, self, logging (logging_error msg) e)
                | Inr (PDict info) \<Rightarrow>
                    (let info = AList.update ''status_code'' (PInt (status_code response)) info
                     in (BackendResponse info, RequestObj request, self, e))
                | Inr _ \<Rightarrow> (Inl AttributeError, RequestObj request, self, e))))"

subsection \<open>The singleton\<close>

text \<open>
  Instances are held by reference: \<open>heap\<close> lists the \<open>Backend\<close> objects created so far,
  a reference is \<open>None\<close> or the index of an object. \<open>instance_attr\<close> holds, for each
  class that has been assigned one, its own \<open>_instance\<close> attribute.
\<close>

record 't registry =
  heap :: "'t Backend list"
  instance_attr :: "string \<rightharpoonup> nat"

definition empty_registry :: "'t registry" where
  "empty_registry = \<lparr>heap = [], instance_attr = Map.empty\<rparr>"

text \<open>
  \<open>class_._instance\<close>: the attribute of the first class in the resolution order that has
  one of its own; the \<open>None\<close> of \<open>Backend\<close> otherwise.
\<close>

definition lookup_p_instance :: "backend_class \<Rightarrow> 't registry \<Rightarrow> nat option" where
  "lookup_p_instance cls r =
     (case List.find (\<lambda>n. instance_attr r n \<noteq> None) (cname cls # ancestors cls) of
        None \<Rightarrow> None
      | Some n \<Rightarrow> instance_attr r n)"

definition isinstance :: "'t registry \<Rightarrow> nat option \<Rightarrow> backend_class \<Rightarrow> bool" where
  "isinstance r x cls =
     (case x of
        None \<Rightarrow> False
      | Some i \<Rightarrow> i < length (heap r) \<and>
          cname cls \<in> set (cname (klass (heap r ! i)) # ancestors (klass (heap r ! i))))"

text \<open>
  \<open>Backend.__new__(class_, url_prefix)\<close> (\<open>class_\<close> is written \<open>cls\<close>);
  \<open>object.__new__(class_)\<close> appends a new
  object, whose \<open>url_prefix\<close> the next statement sets.
\<close>

definition Backend_new :: "backend_class \<Rightarrow> string \<Rightarrow> 't registry \<Rightarrow> nat option \<times> 't registry" where
  "Backend_new cls prefix r =
     (let r = (if \<not> isinstance r (lookup_p_instance cls r) cls
               then r\<lparr>heap := heap r @ [\<lparr>klass = cls, url_prefix = prefix, session = None\<rparr>],
                      instance_attr := (instance_attr r)(cname cls \<mapsto> length (heap r))\<rparr>
               else r)
      in (lookup_p_instance cls r, r))"

text \<open>\<open>Backend.__init__(self, url_prefix)\<close> on the object at index \<open>i\<close>.\<close>

definition Backend_init ::
  "nat \<Rightarrow> string \<Rightarrow> ('t::numeral) registry \<times> 't env \<Rightarrow> 't registry \<times> 't env" where
  "Backend_init i prefix = (\<lambda>(r, e).
     (let (s, e) = SessionWithMaxConnectionAge_new 10 e;
          r = r\<lparr>heap := (heap r)[i := (heap r ! i)\<lparr>session := Some s\<rparr>]\<rparr>;
          r = r\<lparr>heap := (heap r)[i := (heap r ! i)\<lparr>url_prefix := prefix\<rparr>]\<rparr>
      in (r, e)))"

text \<open>
  The call \<open>cls(url_prefix)\<close>: \<open>__new__\<close>, then \<open>__init__\<close> with the same argument
  on what \<open>__new__\<close> returned, if that is an instance of the class.
\<close>

definition construct ::
  "backend_class \<Rightarrow> string \<Rightarrow> ('t::numeral) registry \<times> 't env \<Rightarrow> nat option \<times> 't registry \<times> 't env" where
  "construct cls prefix = (\<lambda>(r, e).
     (case Backend_new cls prefix r of
        (x, r) \<Rightarrow>
          (case x of
             None \<Rightarrow> (x, r, e)
           | Some i \<Rightarrow>
               if isinstance r x cls
               then (case Backend_init i prefix (r, e) of (r, e) \<Rightarrow> (x, r, e))
               else (x, r, e))))"

text \<open>\<open>cls._create_instance(*args)\<close>.\<close>

definition p_create_instance ::
  "backend_class \<Rightarrow> pyval list \<Rightarrow> ('t::numeral) registry \<times> 't env \<Rightarrow>
   (error + nat option) \<times> 't registry \<times> 't env" where
  "p_create_instance cls args = (\<lambda>(r, e).
     (case create_instance cls of
        None \<Rightarrow>
          (if args = []
           then Inl (NotImplementedError ''Subclasses should implement the creation of instance'')
           else Inl TypeError, r, e)
      | Some p \<Rightarrow> (case construct cls p (r, e) of (x, r, e) \<Rightarrow> (Inr x, r, e))))"

text \<open>\<open>Backend.get_instance(cls, *args)\<close>: an object is truthy, \<open>None\<close> is not.\<close>

definition get_instance ::
  "backend_class \<Rightarrow> pyval list \<Rightarrow> ('t::numeral) registry \<times> 't env \<Rightarrow>
   (error + nat option) \<times> 't registry \<times> 't env" where
  "get_instance cls args = (\<lambda>(r, e).
     (case lookup_p_instance cls r of
        Some i \<Rightarrow> (Inr (Some i), r, e)
      | None \<Rightarrow> p_create_instance cls args (r, e)))"

text \<open>A process that constructs backends and asks for instances, in any order.\<close>

datatype op = Construct backend_class string | GetInstance backend_class "pyval list"

fun step :: "op \<Rightarrow> ('t::numeral) registry \<times> 't env \<Rightarrow> 't registry \<times> 't env" where
  "step (Construct c p) w = snd (construct c p w)"
| "step (GetInstance c args) w = snd (get_instance c args w)"

definition run :: "op list \<Rightarrow> ('t::numeral) registry \<times> 't env \<Rightarrow> 't registry \<times> 't env" where
  "run ops w = fold step ops w"

text \<open>The number of live instances whose class is named \<open>n\<close>.\<close>

definition instances_of :: "string \<Rightarrow> 't registry \<Rightarrow> nat" where
  "instances_of n r = length (filter (\<lambda>b. cname (klass b) = n) (heap r))"

text \<open>The object a reference points to, if any.\<close>

definition deref :: "'t registry \<Rightarrow> nat option \<Rightarrow> 't Backend option" where
  "deref r x = (case x of
                  None \<Rightarrow> None
                | Some i \<Rightarrow> if i < length (heap r) then Some (heap r ! i) else None)"

text \<open>
  The invariant of the registry: every object is the \<open>_instance\<close> of its own class, and
  every \<open>_instance\<close> is an object of the class that holds it.
\<close>

definition registry_inv :: "'t registry \<Rightarrow> bool" where
  "registry_inv r \<longleftrightarrow>
     (\<forall>i < length (heap r). instance_attr r (cname (klass (heap r ! i))) = Some i)
   \<and> (\<forall>n i. instance_attr r n = Some i \<longrightarrow> i < length (heap r) \<and> cname (klass (heap r ! i)) = n)"

subsection \<open>Example objects\<close>

text \<open>
  A concrete subclass, an instance of it whose session has been set up, a request
  with a given retry budget, and an environment whose clock advances by one second per
  reading and whose transport is given. The time is an integer number of seconds here.
  The call is made eleven frames deep under the default recursion limit of 1000, which
  leaves 989 frames.
\<close>

definition MockBackend :: backend_class where
  "MockBackend = \<lparr>cname = ''MockBackend'', ancestors = [],
     base_url = Some ''https://api.example.com/'', connect_endpoint = Some ''/status'',
     create_instance = Some ''''\<rparr>"

definition example_backend :: "int Backend" where
  "example_backend = \<lparr>klass = MockBackend, url_prefix = ''/v1/'',
     session = Some \<lparr>age = 10, last_used = 0, handle = 1, closed_handles = []\<rparr>\<rparr>"

definition example_request :: "int \<Rightarrow> BackendRequest" where
  "example_request n = \<lparr>http_method = ''GET'', path = Some ''/things'', params = PNone,
     data = PNone, json = PNone, headers = PNone, max_retries = n, tried = 0\<rparr>"

definition example_env :: "(nat \<Rightarrow> outcome) \<Rightarrow> int env" where
  "example_env tr = \<lparr>clock = (\<lambda>n. int n), reads = 1, transport = tr, sent = [], log = [],
     frames_left = 989\<rparr>"

definition ok_response :: response where
  "ok_response = \<lparr>status_code = 200, response_json = Inr (PDict [])\<rparr>"

text \<open>A transport that raises the given exception on the first call only, and one that
  raises it on every call.\<close>

definition fails_once :: "requests_exception \<Rightarrow> nat \<Rightarrow> outcome" where
  "fails_once x i = (if i = 0 then Raises (RequestsException x ''failed'') else Returns ok_response)"

definition fails_always :: "requests_exception \<Rightarrow> nat \<Rightarrow> outcome" where
  "fails_always x i = Raises (RequestsException x ''failed'')"

text \<open>A transport that answers every call with the given response.\<close>

definition answers :: "response \<Rightarrow> nat \<Rightarrow> outcome" where
  "answers r i = Returns r"

text \<open>Responses: a body \<open>{"a": 1}\<close> with status 201, a body that is not JSON, and a
  body that has a \<open>status_code\<close> key of its own.\<close>

definition created_response :: response where
  "created_response = \<lparr>status_code = 201, response_json = Inr (PDict [(''a'', PInt 1)])\<rparr>"

definition garbled_response :: response where
  "garbled_response = \<lparr>status_code = 200, response_json = Inl ''Expecting value''\<rparr>"

definition echo_response :: response where
  "echo_response = \<lparr>status_code = 200,
     response_json = Inr (PDict [(''status_code'', PInt 999), (''a'', PInt 1)])\<rparr>"

text \<open>Bodies that parse but are no plain mapping of attributes: a key \<open>__class__\<close>, a
  list, and a \<open>__dict__\<close> key after a \<open>status_code\<close> key.\<close>

definition class_key_response :: response where
  "class_key_response = \<lparr>status_code = 200, response_json = Inr (PDict [(''__class__'', PInt 1)])\<rparr>"

definition list_response :: response where
  "list_response = \<lparr>status_code = 200, response_json = Inr (PList [PInt 1, PInt 2])\<rparr>"

definition dict_key_response :: response where
  "dict_key_response = \<lparr>status_code = 200,
     response_json = Inr (PDict [(''status_code'', PInt 1),
                                 (''__dict__'', PDict [(''status_code'', PInt 7)])])\<rparr>"

section \<open>Properties\<close>

subsection \<open>URL construction\<close>

text \<open>
  C6. For all strings \<open>baseUrl\<close>, \<open>urlPrefix\<close> and \<open>path\<close>, the full URL is the join
  with \<open>/\<close> of, in order, \<open>baseUrl\<close> without its trailing slashes, \<open>urlPrefix\<close> without
  its leading and trailing slashes and \<open>path\<close> without its leading slashes, a part that
  is the empty string being left out together with its joining slash (stripping removes
  every such slash, as \<open>lstrip\<close> and \<open>rstrip\<close> do). With \<open>https://api.example.com/\<close>,
  \<open>/v1/\<close> and \<open>/things\<close> the URL is \<open>https://api.example.com/v1/things\<close>, and with an empty
  prefix it is \<open>https://api.example.com/things\<close>.
\<close>

theorem construct_full_url_joins_stripped_parts:
  "p_construct_full_url
     (self\<lparr>klass := (klass self)\<lparr>base_url := Some baseUrl\<rparr>, url_prefix := urlPrefix\<rparr>) (Some pth)
     = spec_buildFullUrl baseUrl urlPrefix pth
   \<and> p_construct_full_url
       (self\<lparr>klass := (klass self)\<lparr>base_url := Some ''https://api.example.com/''\<rparr>,
             url_prefix := ''/v1/''\<rparr>) (Some ''/things'')
     = ''https://api.example.com/v1/things''
   \<and> p_construct_full_url
       (self\<lparr>klass := (klass self)\<lparr>base_url := Some ''https://api.example.com/''\<rparr>,
             url_prefix := ''''\<rparr>) (Some ''/things'')
     = ''https://api.example.com/things''"
  by (simp add: p_construct_full_url_def spec_buildFullUrl_def lstrip_slash_def rstrip_slash_def)

subsection \<open>The session\<close>

text \<open>
  C8. Let \<open>t\<close> be the idle time \<open>current_time - last_used\<close> that \<open>request\<close> computes and
  \<open>a\<close> the age of the session. If \<open>t > a\<close>, the handle over which the request goes out
  is a different instance than the one before the call, which has been closed; if
  \<open>t \<le> a\<close> it is the same instance. In both cases \<open>last_used\<close> is the current time
  after the call, whatever the transport answers, and the age is the same.
\<close>

theorem session_request_recycles_by_age:
  fixes s :: "('t::{minus,linorder}) SessionWithMaxConnectionAge"
  shows
  "(case SessionWithMaxConnectionAge_request s m url ps d hs j e of
      (result, s', e') \<Rightarrow>
        result = transport e (length (sent e))
      \<and> sent e' = sent e @ [\<lparr>via_handle = handle s', sent_method = m, sent_url = url,
            sent_params = ps, sent_data = d, sent_headers = hs, sent_json = j\<rparr>]
      \<and> last_used s' = clock e (reads e)
      \<and> age s' = age s
      \<and> (if clock e (reads e) - last_used s > age s
         then handle s' \<noteq> handle s \<and> closed_handles s' = handle s # closed_handles s
         else handle s' = handle s \<and> closed_handles s' = closed_handles s)
      \<and> (if clock e (reads e) - last_used s \<le> age s
         then handle s' = handle s
         else handle s' \<noteq> handle s))"
  by (auto simp: SessionWithMaxConnectionAge_request_def SessionWithMaxConnectionAge_init_def
      Session_request_def Session_init_def Session_close_def time_time_def Let_def
      split: prod.splits)

text \<open>What a call of the session leaves of the environment.\<close>

lemma session_request_env:
  assumes "SessionWithMaxConnectionAge_request s m url ps d hs j e = (result, s', e')"
  shows "result = transport e (length (sent e))"
    and "transport e' = transport e"
    and "length (sent e') = Suc (length (sent e))"
    and "log e' = log e"
    and "frames_left e' = frames_left e"
  using assms
  by (auto simp: SessionWithMaxConnectionAge_request_def SessionWithMaxConnectionAge_init_def
      Session_request_def Session_init_def Session_close_def time_time_def Let_def
      split: prod.splits if_splits)

lemma logging_env [simp]:
  "transport (logging entry e) = transport e"
  "sent (logging entry e) = sent e"
  "log (logging entry e) = log e @ [entry]"
  "frames_left (logging entry e) = frames_left e"
  by (simp_all add: logging_def)

subsection \<open>Attributes set from keyword arguments\<close>

lemma setattr_plain:
  "\<not> special_attribute k \<Longrightarrow> setattr self k v = Inr (self(k \<mapsto> v))"
  by (auto simp: setattr_def special_attribute_def)

text \<open>With each key once and no special name among them, the loop adds the items to
  the attributes already set.\<close>

lemma setattrs_plain:
  assumes "distinct (map fst kwargs)"
    and "list_all (\<lambda>key. \<not> special_attribute key) (map fst kwargs)"
  shows "setattrs kwargs self = Inr (self ++ map_of kwargs)"
  using assms
proof (induction kwargs arbitrary: self)
  case Nil
  show ?case by simp
next
  case (Cons kv kwargs)
  obtain k v where kv: "kv = (k, v)" by (cases kv)
  from Cons.prems kv have k: "k \<notin> fst ` set kwargs" and d: "distinct (map fst kwargs)"
    and p: "\<not> special_attribute k"
    and ps: "list_all (\<lambda>key. \<not> special_attribute key) (map fst kwargs)"
    by auto
  have "setattrs (kv # kwargs) self = setattrs kwargs (self(k \<mapsto> v))"
    by (simp add: kv setattr_plain [OF p])
  also have "\<dots> = Inr (self(k \<mapsto> v) ++ map_of kwargs)"
    by (rule Cons.IH [OF d ps])
  also have "self(k \<mapsto> v) ++ map_of kwargs = self ++ map_of (kv # kwargs)"
  proof -
    have "map_of kwargs k = None"
      using k by (simp add: map_of_eq_None_iff)
    then show ?thesis
      by (auto simp: kv map_add_def fun_eq_iff split: option.splits)
  qed
  finally show ?case .
qed

text \<open>Without a \<open>__dict__\<close> among the keys, a loop that ends without an exception has
  done the same.\<close>

lemma setattrs_returns:
  assumes "distinct (map fst kwargs)"
    and "''__dict__'' \<notin> set (map fst kwargs)"
    and "setattrs kwargs self = Inr obj"
  shows "obj = self ++ map_of kwargs"
  using assms
proof (induction kwargs arbitrary: self)
  case Nil
  then show ?case by simp
next
  case (Cons kv kwargs)
  obtain k v where kv: "kv = (k, v)" by (cases kv)
  from Cons.prems kv have k: "k \<notin> fst ` set kwargs" and d: "distinct (map fst kwargs)"
    and nd: "k \<noteq> ''__dict__''" and nds: "''__dict__'' \<notin> set (map fst kwargs)"
    by auto
  from Cons.prems(3) nd have p: "setattr self k v = Inr (self(k \<mapsto> v))"
    and rest: "setattrs kwargs (self(k \<mapsto> v)) = Inr obj"
    by (auto simp: kv setattr_def split: if_splits)
  have "obj = self(k \<mapsto> v) ++ map_of kwargs"
    by (rule Cons.IH [OF d nds rest])
  also have "\<dots> = self ++ map_of (kv # kwargs)"
  proof -
    have "map_of kwargs k = None"
      using k by (simp add: map_of_eq_None_iff)
    then show ?thesis
      by (auto simp: kv map_add_def fun_eq_iff split: option.splits)
  qed
  finally show ?case .
qed

text \<open>
  C10, as the code has it. \<open>BackendRequest.__init__\<close> sets the core attributes first
  and the extra keyword arguments after them. When the extra keywords (each once, as in
  a Python call) name neither \<open>self\<close> nor a parameter, which the call rejects, nor
  \<open>__class__\<close>, \<open>__dict__\<close> or \<open>__weakref__\<close>, which are no ordinary attributes, the
  construction succeeds and every extra keyword \<open>k = v\<close> leaves the attribute \<open>k\<close> at
  \<open>v\<close>, whatever the core values. Without extras \<open>tried\<close> is 0; with the extra
  \<open>tried=5\<close> it is 5, and the dispatch then reads an attempt counter that starts at 5.
\<close>

theorem BackendRequest_extras_override_core_fields:
  "(distinct (map fst kwargs)
      \<and> list_all (\<lambda>key. \<not> special_attribute key \<and> key \<notin> set BackendRequest_parameters)
            (map fst kwargs)
      \<and> (k, v) \<in> set kwargs
      \<longrightarrow> (\<exists>obj. BackendRequest_call m p ps d j hs mr kwargs = Inr obj \<and> obj k = Some v))
   \<and> (\<exists>obj. BackendRequest_call m p ps d j hs mr [] = Inr obj \<and> obj ''tried'' = Some (PInt 0))
   \<and> (\<exists>obj. BackendRequest_call m p ps d j hs mr [(''tried'', PInt 5)] = Inr obj
          \<and> obj ''tried'' = Some (PInt 5))
   \<and> (\<exists>obj. BackendRequest_call (PStr ms) PNone ps d j hs (PInt n) [(''tried'', PInt 5)] = Inr obj
          \<and> map_option tried (as_request obj) = Some 5)"
proof (intro conjI impI)
  assume a: "distinct (map fst kwargs)
      \<and> list_all (\<lambda>key. \<not> special_attribute key \<and> key \<notin> set BackendRequest_parameters)
            (map fst kwargs)
      \<and> (k, v) \<in> set kwargs"
  then have d: "distinct (map fst kwargs)"
    and s: "list_all (\<lambda>key. \<not> special_attribute key) (map fst kwargs)"
    and np: "\<not> list_ex (\<lambda>key. key \<in> set BackendRequest_parameters) (map fst kwargs)"
    and kv: "(k, v) \<in> set kwargs"
    by (auto simp: list_all_iff list_ex_iff)
  from d kv have "map_of kwargs k = Some v" by simp
  then show "\<exists>obj. BackendRequest_call m p ps d j hs mr kwargs = Inr obj \<and> obj k = Some v"
    by (simp add: BackendRequest_call_def BackendRequest_init_def np setattrs_plain [OF d s]
        map_add_def)
next
  show "\<exists>obj. BackendRequest_call m p ps d j hs mr [] = Inr obj \<and> obj ''tried'' = Some (PInt 0)"
    by (simp add: BackendRequest_call_def BackendRequest_init_def)
next
  show "\<exists>obj. BackendRequest_call m p ps d j hs mr [(''tried'', PInt 5)] = Inr obj
          \<and> obj ''tried'' = Some (PInt 5)"
    by (simp add: BackendRequest_call_def BackendRequest_init_def BackendRequest_parameters_def
        setattr_def)
next
  show "\<exists>obj. BackendRequest_call (PStr ms) PNone ps d j hs (PInt n) [(''tried'', PInt 5)] = Inr obj
          \<and> map_option tried (as_request obj) = Some 5"
    by (simp add: BackendRequest_call_def BackendRequest_init_def BackendRequest_parameters_def
        setattr_def as_request_def)
qed

theorem BackendRequest_extras_override_core_fields_witness:
  "distinct (map fst [(''timeout'', PInt 30), (''tried'', PInt 5)])
   \<and> list_all (\<lambda>key. \<not> special_attribute key \<and> key \<notin> set BackendRequest_parameters)
        (map fst [(''timeout'', PInt 30), (''tried'', PInt 5)])
   \<and> (''tried'', PInt 5) \<in> set [(''timeout'', PInt 30), (''tried'', PInt 5)]
   \<and> (\<exists>obj. BackendRequest_call (PStr ''GET'') (PStr ''/things'') PNone PNone PNone PNone (PInt 3)
               [(''timeout'', PInt 30), (''tried'', PInt 5)] = Inr obj
          \<and> obj ''tried'' = Some (PInt 5))"
proof -
  have h: "distinct (map fst [(''timeout'', PInt 30), (''tried'', PInt 5)])
     \<and> list_all (\<lambda>key. \<not> special_attribute key \<and> key \<notin> set BackendRequest_parameters)
          (map fst [(''timeout'', PInt 30), (''tried'', PInt 5)])
     \<and> (''tried'', PInt 5) \<in> set [(''timeout'', PInt 30), (''tried'', PInt 5)]"
    by (simp add: special_attribute_def BackendRequest_parameters_def)
  from BackendRequest_extras_override_core_fields
    [of "[(''timeout'', PInt 30), (''tried'', PInt 5)]" "''tried''" "PInt 5"
        "PStr ''GET''" "PStr ''/things''" PNone PNone PNone PNone "PInt 3"]
  have "distinct (map fst [(''timeout'', PInt 30), (''tried'', PInt 5)])
     \<and> list_all (\<lambda>key. \<not> special_attribute key \<and> key \<notin> set BackendRequest_parameters)
          (map fst [(''timeout'', PInt 30), (''tried'', PInt 5)])
     \<and> (''tried'', PInt 5) \<in> set [(''timeout'', PInt 30), (''tried'', PInt 5)]
     \<longrightarrow> (\<exists>obj. BackendRequest_call (PStr ''GET'') (PStr ''/things'') PNone PNone PNone PNone (PInt 3)
               [(''timeout'', PInt 30), (''tried'', PInt 5)] = Inr obj
          \<and> obj ''tried'' = Some (PInt 5))"
    by (rule conjunct1)
  with h show ?thesis by blast
qed

text \<open>
  C10, as stated, fails: in \<open>BackendRequest("GET", "/things", tried=5,
  __dict__={"tried": 0})\<close> the extra \<open>tried=5\<close> is set after the core fields, and the extra
  \<open>__dict__\<close> then replaces the instance dictionary: the counter is 0 and the core
  attribute \<open>method\<close> is gone. With an extra keyword named \<open>self\<close> the construction
  raises a \<open>TypeError\<close>.
\<close>

theorem BackendRequest_extras_counterexample:
  "(case BackendRequest_call (PStr ''GET'') (PStr ''/things'') PNone PNone PNone PNone (PInt 1)
           [(''tried'', PInt 5), (''__dict__'', PDict [(''tried'', PInt 0)])] of
      Inl err \<Rightarrow> False
    | Inr obj \<Rightarrow> obj ''tried'' = Some (PInt 0) \<and> obj ''method'' = None)
   \<and> BackendRequest_call (PStr ''GET'') (PStr ''/things'') PNone PNone PNone PNone (PInt 1)
        [(''self'', PInt 5)] = Inl TypeError"
  by (simp add: BackendRequest_call_def BackendRequest_init_def BackendRequest_parameters_def
      setattr_def)

subsection \<open>Dispatch\<close>

text \<open>Every class of \<open>requests.exceptions\<close> is matched by the first \<open>except\<close> clause,
  which names their common base.\<close>

lemma first_except_clause_matches_all:
  "except_matches x [requests_ConnectionError, requests_RequestException]"
  by (cases x) (simp_all add: except_matches_def)

text \<open>One attempt that the transport fails with an exception of \<open>requests\<close>.\<close>

lemma p_make_request_failed_attempt:
  assumes s: "session self = Some s"
    and r: "SessionWithMaxConnectionAge_request s (http_method request)
              (p_construct_full_url self (path request)) (params request) (data request)
              (headers request) (json request) e = (Raises (RequestsException x msg), s', e')"
  shows "p_make_request self request e =
           (if max_retries request \<le> tried request + 1
            then (Inl (errors_ConnectionError ''Connection error occurred.''),
                  request\<lparr>tried := tried request + 1\<rparr>, self\<lparr>session := Some s'\<rparr>,
                  logging (logging_error msg) e')
            else if frames_left e' = 0
            then (Inl RecursionError,
                  request\<lparr>tried := tried request + 1\<rparr>, self\<lparr>session := Some s'\<rparr>,
                  logging (logging_warning
                      (''Connection error occurred. Retrying request to ''
                         @ p_construct_full_url self (path request))) e')
            else (case p_make_request (self\<lparr>session := Some s'\<rparr>)
                         (request\<lparr>tried := tried request + 1\<rparr>)
                         ((logging (logging_warning
                            (''Connection error occurred. Retrying request to ''
                               @ p_construct_full_url self (path request))) e')
                            \<lparr>frames_left := frames_left e' - 1\<rparr>) of
                    (result, request, self, e'') \<Rightarrow>
                      (result, request, self, e''\<lparr>frames_left := frames_left e'\<rparr>)))"
  apply (subst p_make_request.simps)
  apply (simp add: Let_def s r first_except_clause_matches_all del: p_make_request.simps)
  done

lemma always_failing_dispatch:
  fixes self :: "('t::{minus,ord}) Backend"
  assumes "\<forall>i. \<exists>msg. transport e i = Raises (RequestsException requests_ConnectionError msg)"
    and "session self \<noteq> None"
    and "nat (max_retries request - tried request) = Suc k"
    and "k \<le> frames_left e"
  shows "case p_make_request self request e of
           (result, request', self', e') \<Rightarrow>
             result = Inl (errors_ConnectionError ''Connection error occurred.'')
           \<and> tried request' = max_retries request
           \<and> int (length (sent e')) = int (length (sent e)) + (max_retries request - tried request)"
  using assms
proof (induction k arbitrary: self request e)
  case 0
  then obtain s where s: "session self = Some s" by auto
  obtain result s' e' where r: "SessionWithMaxConnectionAge_request s (http_method request)
              (p_construct_full_url self (path request)) (params request) (data request)
              (headers request) (json request) e = (result, s', e')"
    by (metis prod_cases3)
  from session_request_env(1,3) [OF r] "0.prems"(1) obtain msg where
    res: "result = Raises (RequestsException requests_ConnectionError msg)"
    and len: "length (sent e') = Suc (length (sent e))" by metis
  from "0.prems"(3) have m: "max_retries request = tried request + 1" by linarith
  show ?case
    using p_make_request_failed_attempt [OF s r [unfolded res]] m len by simp
next
  case (Suc k)
  then obtain s where s: "session self = Some s" by auto
  obtain result s' e' where r: "SessionWithMaxConnectionAge_request s (http_method request)
              (p_construct_full_url self (path request)) (params request) (data request)
              (headers request) (json request) e = (result, s', e')"
    by (metis prod_cases3)
  from session_request_env(1,2,3) [OF r] Suc.prems(1) obtain msg where
    res: "result = Raises (RequestsException requests_ConnectionError msg)"
    and tr: "transport e' = transport e"
    and len: "length (sent e') = Suc (length (sent e))" by metis
  have fr: "frames_left e' = frames_left e"
    by (rule session_request_env(5) [OF r])
  let ?self = "self\<lparr>session := Some s'\<rparr>"
  let ?request = "request\<lparr>tried := tried request + 1\<rparr>"
  let ?e = "(logging (logging_warning
                      (''Connection error occurred. Retrying request to ''
                         @ p_construct_full_url self (path request))) e')
              \<lparr>frames_left := frames_left e' - 1\<rparr>"
  from Suc.prems(3) have m: "\<not> max_retries request \<le> tried request + 1"
    and k: "nat (max_retries ?request - tried ?request) = Suc k" by auto
  from Suc.prems(4) fr have f: "frames_left e' \<noteq> 0" and kf: "k \<le> frames_left ?e"
    by simp_all
  have step: "p_make_request self request e =
      (case p_make_request ?self ?request ?e of
         (result, request, self, e'') \<Rightarrow>
           (result, request, self, e''\<lparr>frames_left := frames_left e'\<rparr>))"
    using p_make_request_failed_attempt [OF s r [unfolded res]] m f by simp
  have tr': "\<forall>i. \<exists>msg. transport ?e i = Raises (RequestsException requests_ConnectionError msg)"
    using Suc.prems(1) tr by simp
  have sess: "session ?self \<noteq> None" by simp
  obtain res rq sf ef where p: "p_make_request ?self ?request ?e = (res, rq, sf, ef)"
    by (metis prod_cases4)
  have "res = Inl (errors_ConnectionError ''Connection error occurred.'')
      \<and> tried rq = max_retries ?request
      \<and> int (length (sent ef)) = int (length (sent ?e)) + (max_retries ?request - tried ?request)"
    using Suc.IH [OF tr' sess k kf] unfolding p by simp
  then show ?case
    unfolding step p using len by simp
qed

text \<open>The same dispatch where the recursion limit leaves fewer frames than retries are
  due: it ends with a \<open>RecursionError\<close>, after one attempt more than frames were left.\<close>

lemma dispatch_exhausts_frames:
  fixes self :: "('t::{minus,ord}) Backend"
  assumes "\<forall>i. \<exists>msg. transport e i = Raises (RequestsException requests_ConnectionError msg)"
    and "session self \<noteq> None"
    and "frames_left e = k"
    and "int k + 1 < max_retries request - tried request"
  shows "case p_make_request self request e of
           (result, request', self', e') \<Rightarrow>
             result = Inl RecursionError
           \<and> tried request' = tried request + int k + 1
           \<and> length (sent e') = length (sent e) + k + 1"
  using assms
proof (induction k arbitrary: self request e)
  case 0
  then obtain s where s: "session self = Some s" by auto
  obtain result s' e' where r: "SessionWithMaxConnectionAge_request s (http_method request)
              (p_construct_full_url self (path request)) (params request) (data request)
              (headers request) (json request) e = (result, s', e')"
    by (metis prod_cases3)
  from session_request_env(1,3) [OF r] "0.prems"(1) obtain msg where
    res: "result = Raises (RequestsException requests_ConnectionError msg)"
    and len: "length (sent e') = Suc (length (sent e))" by metis
  have fr: "frames_left e' = 0"
    using session_request_env(5) [OF r] "0.prems"(3) by simp
  from "0.prems"(4) have m: "\<not> max_retries request \<le> tried request + 1" by simp
  show ?case
    using p_make_request_failed_attempt [OF s r [unfolded res]] m fr len by simp
next
  case (Suc k)
  then obtain s where s: "session self = Some s" by auto
  obtain result s' e' where r: "SessionWithMaxConnectionAge_request s (http_method request)
              (p_construct_full_url self (path request)) (params request) (data request)
              (headers request) (json request) e = (result, s', e')"
    by (metis prod_cases3)
  from session_request_env(1,2,3) [OF r] Suc.prems(1) obtain msg where
    res: "result = Raises (RequestsException requests_ConnectionError msg)"
    and tr: "transport e' = transport e"
    and len: "length (sent e') = Suc (length (sent e))" by metis
  have fr: "frames_left e' = Suc k"
    using session_request_env(5) [OF r] Suc.prems(3) by simp
  let ?self = "self\<lparr>session := Some s'\<rparr>"
  let ?request = "request\<lparr>tried := tried request + 1\<rparr>"
  let ?e = "(logging (logging_warning
                      (''Connection error occurred. Retrying request to ''
                         @ p_construct_full_url self (path request))) e')
              \<lparr>frames_left := frames_left e' - 1\<rparr>"
  from Suc.prems(4) have m: "\<not> max_retries request \<le> tried request + 1"
    and k: "int k + 1 < max_retries ?request - tried ?request" by auto
  have kf: "frames_left ?e = k" using fr by simp
  have step: "p_make_request self request e =
      (case p_make_request ?self ?request ?e of
         (result, request, self, e'') \<Rightarrow>
           (result, request, self, e''\<lparr>frames_left := frames_left e'\<rparr>))"
    using p_make_request_failed_attempt [OF s r [unfolded res]] m fr by simp
  have tr': "\<forall>i. \<exists>msg. transport ?e i = Raises (RequestsException requests_ConnectionError msg)"
    using Suc.prems(1) tr by simp
  have sess: "session ?self \<noteq> None" by simp
  obtain res rq sf ef where p: "p_make_request ?self ?request ?e = (res, rq, sf, ef)"
    by (metis prod_cases4)
  have "res = Inl RecursionError
      \<and> tried rq = tried ?request + int k + 1
      \<and> length (sent ef) = length (sent ?e) + k + 1"
    using Suc.IH [OF tr' sess kf k] unfolding p by simp
  then show ?case
    unfolding step p using len by simp
qed

text \<open>
  C4, as the code has it. A backend with a session dispatches a request whose attempt
  counter is below its \<open>max_retries\<close> \<open>n\<close>, against a transport that raises a
  connection failure on every call, where the recursion limit leaves a frame for each
  retry that is due. The dispatch ends with a \<open>ConnectionError\<close>; the counter is then
  exactly \<open>n\<close>; and the number of calls made is the budget that was left, so each
  attempt has raised the counter by one and no attempt was made beyond \<open>n\<close>. From a
  counter of 0 that is \<open>n\<close> attempts, and one attempt when \<open>n = 1\<close>.
\<close>

theorem dispatch_retries_up_to_max_retries:
  fixes self :: "('t::{minus,ord}) Backend"
  assumes "\<forall>i. \<exists>msg. transport e i = Raises (RequestsException requests_ConnectionError msg)"
    and "session self \<noteq> None"
    and "tried request < max_retries request"
    and "max_retries request - tried request \<le> int (frames_left e) + 1"
  shows "case p_make_request self request e of
           (result, request', self', e') \<Rightarrow>
             result = Inl (errors_ConnectionError ''Connection error occurred.'')
           \<and> tried request' = max_retries request
           \<and> int (length (sent e')) = int (length (sent e)) + (max_retries request - tried request)"
proof -
  from assms(3) have k: "nat (max_retries request - tried request)
      = Suc (nat (max_retries request - tried request) - 1)"
    by simp
  from assms(4) have "nat (max_retries request - tried request) - 1 \<le> frames_left e"
    by linarith
  from always_failing_dispatch [OF assms(1,2) k this] show ?thesis .
qed

theorem dispatch_retries_up_to_max_retries_witness:
  "(\<forall>i. \<exists>msg. transport (example_env (fails_always requests_ConnectionError)) i
        = Raises (RequestsException requests_ConnectionError msg))
   \<and> session example_backend \<noteq> None
   \<and> tried (example_request 3) < max_retries (example_request 3)
   \<and> max_retries (example_request 3) - tried (example_request 3)
        \<le> int (frames_left (example_env (fails_always requests_ConnectionError))) + 1
   \<and> tried (example_request 1) < max_retries (example_request 1)
   \<and> max_retries (example_request 1) - tried (example_request 1)
        \<le> int (frames_left (example_env (fails_always requests_ConnectionError))) + 1
   \<and> (case p_make_request example_backend (example_request 3)
              (example_env (fails_always requests_ConnectionError)) of
        (result, request', self', e') \<Rightarrow>
          result = Inl (errors_ConnectionError ''Connection error occurred.'')
        \<and> tried request' = 3 \<and> length (sent e') = 3)
   \<and> (case p_make_request example_backend (example_request 1)
              (example_env (fails_always requests_ConnectionError)) of
        (result, request', self', e') \<Rightarrow>
          result = Inl (errors_ConnectionError ''Connection error occurred.'')
        \<and> tried request' = 1 \<and> length (sent e') = 1)"
proof -
  have h1: "\<forall>i. \<exists>msg. transport (example_env (fails_always requests_ConnectionError)) i
        = Raises (RequestsException requests_ConnectionError msg)"
    by (simp add: example_env_def fails_always_def)
  have h2: "session example_backend \<noteq> None"
    by (simp add: example_backend_def)
  have h3: "tried (example_request 3) < max_retries (example_request 3)"
    and h4: "tried (example_request 1) < max_retries (example_request 1)"
    by (simp_all add: example_request_def)
  have f3: "max_retries (example_request 3) - tried (example_request 3)
        \<le> int (frames_left (example_env (fails_always requests_ConnectionError))) + 1"
    and f1: "max_retries (example_request 1) - tried (example_request 1)
        \<le> int (frames_left (example_env (fails_always requests_ConnectionError))) + 1"
    by (simp_all add: example_request_def example_env_def)
  have c3: "case p_make_request example_backend (example_request 3)
              (example_env (fails_always requests_ConnectionError)) of
        (result, request', self', e') \<Rightarrow>
          result = Inl (errors_ConnectionError ''Connection error occurred.'')
        \<and> tried request' = 3 \<and> length (sent e') = 3"
    using dispatch_retries_up_to_max_retries [OF h1 h2 h3 f3]
    by (simp add: example_request_def example_env_def split: prod.splits
        del: p_make_request.simps)
  have c1: "case p_make_request example_backend (example_request 1)
              (example_env (fails_always requests_ConnectionError)) of
        (result, request', self', e') \<Rightarrow>
          result = Inl (errors_ConnectionError ''Connection error occurred.'')
        \<and> tried request' = 1 \<and> length (sent e') = 1"
    using dispatch_retries_up_to_max_retries [OF h1 h2 h4 f1]
    by (simp add: example_request_def example_env_def split: prod.splits
        del: p_make_request.simps)
  from h1 h2 h3 h4 f3 f1 c3 c1 show ?thesis by blast
qed

text \<open>
  C4, as stated, fails on two kinds of dispatch, both against a transport that always
  raises a connection failure. A descriptor with \<open>max_retries = 3\<close> whose counter is
  already 5 (set by an extra keyword, or left by earlier dispatches of the same
  descriptor) makes one attempt and ends with the counter at 6, above \<open>max_retries\<close>.
  A new descriptor with \<open>max_retries = 1000\<close>, dispatched where the recursion limit
  leaves 989 frames, ends with a \<open>RecursionError\<close> and not a \<open>ConnectionError\<close>, with
  the counter at 990.
\<close>

theorem dispatch_retry_bound_counterexample:
  "(case p_make_request example_backend ((example_request 3)\<lparr>tried := 5\<rparr>)
           (example_env (fails_always requests_ConnectionError)) of
      (result, request', self', e') \<Rightarrow>
        result = Inl (errors_ConnectionError ''Connection error occurred.'')
      \<and> tried request' = 6 \<and> max_retries request' = 3 \<and> length (sent e') = 1)
   \<and> (case p_make_request example_backend (example_request 1000)
           (example_env (fails_always requests_ConnectionError)) of
      (result, request', self', e') \<Rightarrow>
        result = Inl RecursionError \<and> tried request' = 990)"
proof -
  have a: "case p_make_request example_backend ((example_request 3)\<lparr>tried := 5\<rparr>)
           (example_env (fails_always requests_ConnectionError)) of
      (result, request', self', e') \<Rightarrow>
        result = Inl (errors_ConnectionError ''Connection error occurred.'')
      \<and> tried request' = 6 \<and> max_retries request' = 3 \<and> length (sent e') = 1"
    by code_simp
  have h1: "\<forall>i. \<exists>msg. transport (example_env (fails_always requests_ConnectionError)) i
        = Raises (RequestsException requests_ConnectionError msg)"
    by (simp add: example_env_def fails_always_def)
  have h2: "session example_backend \<noteq> None"
    by (simp add: example_backend_def)
  have h3: "frames_left (example_env (fails_always requests_ConnectionError)) = 989"
    by (simp add: example_env_def)
  have h4: "int 989 + 1 < max_retries (example_request 1000) - tried (example_request 1000)"
    by (simp add: example_request_def)
  have b: "case p_make_request example_backend (example_request 1000)
           (example_env (fails_always requests_ConnectionError)) of
      (result, request', self', e') \<Rightarrow>
        result = Inl RecursionError \<and> tried request' = 990"
    using dispatch_exhausts_frames [OF h1 h2 h3 h4]
    by (simp add: example_request_def example_env_def split: prod.splits
        del: p_make_request.simps)
  from a b show ?thesis by (rule conjI)
qed

text \<open>
  So the later clauses are dead code: whatever the transport does, a dispatch that
  fails raises the \<open>ConnectionError\<close> of the first clause, or an exception that is
  none of \<open>requests\<close>, or the \<open>AttributeError\<close> of a backend without a session, or a
  \<open>RecursionError\<close>; never a \<open>TimeoutError\<close>, \<open>HttpError\<close>, \<open>InvalidRequest\<close> or
  \<open>InvalidResponse\<close>, and never the \<open>ConnectionError\<close> of the clause for \<open>SSLError\<close>.
\<close>

lemma later_except_clauses_unreachable:
  fixes self :: "('t::{minus,ord}) Backend"
  assumes "fst (p_make_request self request e) = Inl err"
  shows "err = AttributeError
       \<or> (\<exists>msg. err = Propagated (OtherException msg))
       \<or> err = errors_ConnectionError ''Connection error occurred.''
       \<or> err = RecursionError"
  using assms
proof (induction "nat (max_retries request - tried request)" arbitrary: self request e
    rule: less_induct)
  case less
  note prems = less.prems
  show ?case
  proof (cases "session self")
    case None
    with prems show ?thesis
      by (subst (asm) p_make_request.simps) (simp add: Let_def)
  next
    case (Some s)
    obtain result s' e' where r: "SessionWithMaxConnectionAge_request s (http_method request)
              (p_construct_full_url self (path request)) (params request) (data request)
              (headers request) (json request) e = (result, s', e')"
      by (metis prod_cases3)
    show ?thesis
    proof (cases result)
      case (Returns resp)
      with prems Some r show ?thesis
        by (subst (asm) p_make_request.simps) (simp add: Let_def)
    next
      case (Raises ex)
      show ?thesis
      proof (cases ex)
        case (OtherException msg)
        with prems Some r Raises show ?thesis
          by (subst (asm) p_make_request.simps) (auto simp: Let_def)
      next
        case (RequestsException x msg)
        note att = p_make_request_failed_attempt [OF Some r [unfolded Raises RequestsException]]
        show ?thesis
        proof (cases "max_retries request \<le> tried request + 1")
          case True
          with prems att show ?thesis by auto
        next
          case False
          show ?thesis
          proof (cases "frames_left e' = 0")
            case True
            with prems att False show ?thesis by auto
          next
            case nz: False
            let ?self = "self\<lparr>session := Some s'\<rparr>"
            let ?request = "request\<lparr>tried := tried request + 1\<rparr>"
            let ?e = "(logging (logging_warning
                      (''Connection error occurred. Retrying request to ''
                         @ p_construct_full_url self (path request))) e')
                        \<lparr>frames_left := frames_left e' - 1\<rparr>"
            from prems att False nz have "fst (p_make_request ?self ?request ?e) = Inl err"
              by (simp split: prod.splits del: p_make_request.simps)
            moreover have "nat (max_retries ?request - tried ?request)
                < nat (max_retries request - tried request)"
              using False by simp
            ultimately show ?thesis
              using less.hyps by blast
          qed
        qed
      qed
    qed
  qed
qed

text \<open>A dispatch that has no retry left makes one attempt.\<close>

lemma p_make_request_single_attempt:
  fixes self :: "('t::{minus,ord}) Backend"
  assumes "max_retries request \<le> tried request + 1"
  shows "fst (p_make_request self request e) =
     (case session self of
        None \<Rightarrow> Inl AttributeError
      | Some s \<Rightarrow>
          (case transport e (length (sent e)) of
             Returns r \<Rightarrow> Inr r
           | Raises (OtherException msg) \<Rightarrow> Inl (Propagated (OtherException msg))
           | Raises (RequestsException x msg) \<Rightarrow>
               Inl (errors_ConnectionError ''Connection error occurred.'')))"
proof (cases "session self")
  case None
  then show ?thesis
    by (subst p_make_request.simps) (simp add: Let_def)
next
  case (Some s)
  obtain result s' e' where r: "SessionWithMaxConnectionAge_request s (http_method request)
              (p_construct_full_url self (path request)) (params request) (data request)
              (headers request) (json request) e = (result, s', e')"
    by (metis prod_cases3)
  have res: "transport e (length (sent e)) = result"
    using session_request_env(1) [OF r] by simp
  show ?thesis
    using assms
    by (subst p_make_request.simps)
       (simp add: Let_def Some r res first_except_clause_matches_all
          split: outcome.splits py_exception.splits)
qed

text \<open>
  C1, on the code: a request with \<open>max_retries = 3\<close> whose first attempt the transport
  fails with a read timeout. The first \<open>except\<close> clause names \<open>RequestException\<close>, the
  base of \<open>Timeout\<close>, so the clause for timeouts is never reached: the dispatch tries
  again. When the second attempt succeeds it returns the response, after two calls;
  when every attempt times out it ends with a \<open>ConnectionError\<close> after three calls. No
  \<open>TimeoutError\<close> is raised in either run.
\<close>

theorem timeout_is_retried:
  "(case p_make_request example_backend (example_request 3)
           (example_env (fails_once requests_ReadTimeout)) of
      (result, request, self, e) \<Rightarrow>
        result = Inr ok_response \<and> tried request = 2 \<and> length (sent e) = 2)
   \<and> (case p_make_request example_backend (example_request 3)
           (example_env (fails_always requests_ReadTimeout)) of
      (result, request, self, e) \<Rightarrow>
        result = Inl (errors_ConnectionError ''Connection error occurred.'')
        \<and> tried request = 3 \<and> length (sent e) = 3)"
  by code_simp

text \<open>
  C7, on the code: a request with \<open>max_retries = 3\<close> whose first attempt the transport
  fails with an \<open>SSLError\<close>. \<open>SSLError\<close> derives from the \<open>ConnectionError\<close> of
  \<open>requests\<close>, which the first \<open>except\<close> clause names, so the clause for \<open>SSLError\<close> is
  never reached: the dispatch tries again while budget is left. It returns the
  response of a second attempt that succeeds, and makes three calls when every attempt
  fails.
\<close>

theorem ssl_failure_is_retried:
  "(case p_make_request example_backend (example_request 3)
           (example_env (fails_once requests_SSLError)) of
      (result, request, self, e) \<Rightarrow>
        result = Inr ok_response \<and> tried request = 2 \<and> length (sent e) = 2)
   \<and> (case p_make_request example_backend (example_request 3)
           (example_env (fails_always requests_SSLError)) of
      (result, request, self, e) \<Rightarrow>
        result = Inl (errors_ConnectionError ''Connection error occurred.'')
        \<and> tried request = 3 \<and> length (sent e) = 3
        \<and> log e = [logging_warning
               ''Connection error occurred. Retrying request to https://api.example.com/v1/things'',
             logging_warning
               ''Connection error occurred. Retrying request to https://api.example.com/v1/things'',
             logging_error ''failed''])"
  by code_simp

subsection \<open>\<open>connect\<close>\<close>

text \<open>
  C5. \<open>connect\<close> never raises: whatever the backend and the environment, it returns a
  boolean. The boolean is true iff the backend has a session, the transport answers the
  one call with a response, and the status code of the response is 200; it is false for
  every exception of the transport and for every other status code.
\<close>

theorem connect_reports_reachability:
  fixes self :: "('t::{minus,ord}) Backend"
  shows "fst (connect self e) =
     Inr (case session self of
            None \<Rightarrow> False
          | Some s \<Rightarrow> (case transport e (length (sent e)) of
                        Returns r \<Rightarrow> status_code r = 200
                      | Raises x \<Rightarrow> False))"
proof -
  let ?request = "\<lparr>http_method = ''GET'', path = connect_endpoint (klass self), params = PNone,
     data = PNone, json = PNone, headers = PNone, max_retries = 1, tried = 0\<rparr>"
  obtain res rq sf ef where p: "p_make_request self ?request e = (res, rq, sf, ef)"
    by (metis prod_cases4)
  have body: "connect_try self e =
      (case res of
         Inl err \<Rightarrow> (Inl err, sf, ef)
       | Inr response \<Rightarrow> (Inr (status_code response = 200), sf, ef))"
    using p
    by (cases "connect_endpoint (klass self)")
       (auto simp: connect_try_def BackendRequest_call_def BackendRequest_init_def
          as_request_def split: sum.splits)
  have "res = fst (p_make_request self ?request e)"
    by (simp add: p)
  also have "\<dots> =
     (case session self of
        None \<Rightarrow> Inl AttributeError
      | Some s \<Rightarrow>
          (case transport e (length (sent e)) of
             Returns r \<Rightarrow> Inr r
           | Raises (OtherException msg) \<Rightarrow> Inl (Propagated (OtherException msg))
           | Raises (RequestsException x msg) \<Rightarrow>
               Inl (errors_ConnectionError ''Connection error occurred.'')))"
    by (rule p_make_request_single_attempt) simp
  finally show ?thesis
    by (simp add: connect_def body
        split: option.splits outcome.splits py_exception.splits sum.splits)
qed

subsection \<open>\<open>make_request\<close>\<close>

lemma make_request_result:
  fixes self :: "('t::{minus,ord}) Backend"
  shows "fst (make_request self (RequestObj request) [] e) =
    (case fst (p_make_request self request e) of
       Inl err \<Rightarrow> Inl err
     | Inr response \<Rightarrow>
         (case response_json response of
            Inl msg \<Rightarrow> Inl (errors_InvalidResponse ''Invalid response from backend'')
          | Inr (PDict info) \<Rightarrow>
              BackendResponse (AList.update ''status_code'' (PInt (status_code response)) info)
          | Inr _ \<Rightarrow> Inl AttributeError))"
  by (simp add: make_request_def Let_def split: prod.splits sum.splits pyval.splits)

lemma make_request_state:
  fixes self :: "('t::{minus,ord}) Backend"
  shows "fst (snd (make_request self (RequestObj request) [] e))
           = RequestObj (fst (snd (p_make_request self request e)))"
    and "fst (snd (snd (make_request self (RequestObj request) [] e)))
           = fst (snd (snd (p_make_request self request e)))"
    and "sent (snd (snd (snd (make_request self (RequestObj request) [] e))))
           = sent (snd (snd (snd (p_make_request self request e))))"
  by (simp_all add: make_request_def Let_def split: prod.splits sum.splits pyval.splits)

lemma BackendResponse_merged:
  assumes "distinct (map fst info)" and "''self'' \<notin> set (map fst info)"
    and "list_all (\<lambda>key. \<not> special_attribute key) (map fst info)"
  shows "BackendResponse (AList.update ''status_code'' v info)
           = Inr ((map_of info)(''status_code'' \<mapsto> v))"
proof -
  have d: "distinct (map fst (AList.update ''status_code'' v info))"
    using assms(1) by (simp add: distinct_update)
  have s: "list_all (\<lambda>key. \<not> special_attribute key)
             (map fst (AList.update ''status_code'' v info))"
    using assms(3) by (auto simp: list_all_iff dom_update special_attribute_def)
  have "BackendResponse_init (AList.update ''status_code'' v info)
      = Inr ((map_of info)(''status_code'' \<mapsto> v))"
    by (simp add: BackendResponse_init_def setattrs_plain [OF d s] update_conv')
  moreover have "''self'' \<notin> set (map fst (AList.update ''status_code'' v info))"
    using assms(2) by (auto simp: dom_update)
  ultimately show ?thesis
    by (simp add: BackendResponse_def)
qed

lemma BackendResponse_status_code:
  assumes "distinct (map fst info)" and "''__dict__'' \<notin> set (map fst info)"
    and "BackendResponse (AList.update ''status_code'' v info) = Inr envelope"
  shows "envelope ''status_code'' = Some v"
proof -
  have d: "distinct (map fst (AList.update ''status_code'' v info))"
    using assms(1) by (simp add: distinct_update)
  have nd: "''__dict__'' \<notin> set (map fst (AList.update ''status_code'' v info))"
    using assms(2) by (auto simp: dom_update)
  from assms(3) have "setattrs (AList.update ''status_code'' v info) Map.empty = Inr envelope"
    by (auto simp: BackendResponse_def BackendResponse_init_def split: if_splits)
  from setattrs_returns [OF d nd this]
  have "envelope = (map_of info)(''status_code'' \<mapsto> v)"
    by (simp add: update_conv')
  then show ?thesis by simp
qed

text \<open>
  C9, as the code has it. When the dispatch returns a response whose body parses as a
  mapping (each key once) without a key \<open>__dict__\<close>, and \<open>make_request\<close> returns an
  envelope, the \<open>status_code\<close> entry of the envelope is the HTTP status code of the
  response, also when the body has a \<open>status_code\<close> key of its own: the merge overwrites
  it.
\<close>

theorem make_request_status_code_is_http_status:
  fixes self :: "('t::{minus,ord}) Backend"
  assumes "fst (p_make_request self request e) = Inr response"
    and "response_json response = Inr (PDict info)"
    and "distinct (map fst info)"
    and "''__dict__'' \<notin> set (map fst info)"
    and "fst (make_request self (RequestObj request) [] e) = Inr envelope"
  shows "envelope ''status_code'' = Some (PInt (status_code response))"
  using assms(5) BackendResponse_status_code [OF assms(3,4)]
  by (simp add: make_request_result assms(1,2))

lemma dispatch_answers:
  "fst (p_make_request example_backend (example_request 1) (example_env (answers echo_response)))
     = Inr echo_response"
  "fst (p_make_request example_backend (example_request 1) (example_env (answers created_response)))
     = Inr created_response"
  "fst (p_make_request example_backend (example_request 1) (example_env (answers garbled_response)))
     = Inr garbled_response"
  "fst (p_make_request example_backend (example_request 1) (example_env (answers class_key_response)))
     = Inr class_key_response"
  "fst (p_make_request example_backend (example_request 1) (example_env (answers list_response)))
     = Inr list_response"
  "fst (p_make_request example_backend (example_request 1) (example_env (answers dict_key_response)))
     = Inr dict_key_response"
  by code_simp+

theorem make_request_status_code_is_http_status_witness:
  "fst (p_make_request example_backend (example_request 1) (example_env (answers echo_response)))
     = Inr echo_response
   \<and> response_json echo_response = Inr (PDict [(''status_code'', PInt 999), (''a'', PInt 1)])
   \<and> distinct (map fst [(''status_code'', PInt 999), (''a'', PInt 1)])
   \<and> ''__dict__'' \<notin> set (map fst [(''status_code'', PInt 999), (''a'', PInt 1)])
   \<and> fst (make_request example_backend (RequestObj (example_request 1)) []
            (example_env (answers echo_response)))
       = Inr [''status_code'' \<mapsto> PInt 200, ''a'' \<mapsto> PInt 1]
   \<and> [''status_code'' \<mapsto> PInt 200, ''a'' \<mapsto> PInt 1] ''status_code''
       = Some (PInt (status_code echo_response))"
proof -
  have h1: "fst (p_make_request example_backend (example_request 1)
      (example_env (answers echo_response))) = Inr echo_response"
    by (rule dispatch_answers)
  have h2: "response_json echo_response = Inr (PDict [(''status_code'', PInt 999), (''a'', PInt 1)])"
    by (simp add: echo_response_def)
  have h3: "distinct (map fst [(''status_code'', PInt 999), (''a'', PInt 1)])"
    by simp
  have h4: "''__dict__'' \<notin> set (map fst [(''status_code'', PInt 999), (''a'', PInt 1)])"
    by simp
  have h5: "fst (make_request example_backend (RequestObj (example_request 1)) []
            (example_env (answers echo_response)))
       = Inr [''status_code'' \<mapsto> PInt 200, ''a'' \<mapsto> PInt 1]"
    unfolding make_request_result h1
    by (simp add: BackendResponse_def BackendResponse_init_def setattr_def echo_response_def)
  from make_request_status_code_is_http_status [OF h1 h2 h3 h4 h5] h1 h2 h3 h4 h5
  show ?thesis by blast
qed

text \<open>
  C9, as stated, fails: a body \<open>{"status_code": 1, "__dict__": {"status_code": 7}}\<close>
  with the HTTP status 200 parses as a mapping, and \<open>make_request\<close> returns an envelope
  whose \<open>status_code\<close> is 7: the merged status 200 is set first, and the key \<open>__dict__\<close>
  then replaces the instance dictionary.
\<close>

theorem make_request_status_code_counterexample:
  "fst (p_make_request example_backend (example_request 1)
          (example_env (answers dict_key_response))) = Inr dict_key_response
   \<and> status_code dict_key_response = 200
   \<and> fst (make_request example_backend (RequestObj (example_request 1)) []
            (example_env (answers dict_key_response)))
       = Inr [''status_code'' \<mapsto> PInt 7]"
proof -
  have h1: "fst (p_make_request example_backend (example_request 1)
          (example_env (answers dict_key_response))) = Inr dict_key_response"
    by (rule dispatch_answers)
  have "fst (make_request example_backend (RequestObj (example_request 1)) []
            (example_env (answers dict_key_response)))
       = Inr [''status_code'' \<mapsto> PInt 7]"
    unfolding make_request_result h1
    by (simp add: BackendResponse_def BackendResponse_init_def setattr_def dict_key_response_def)
  with h1 show ?thesis
    by (simp add: dict_key_response_def)
qed

text \<open>
  C3, as the code has it. \<open>make_request\<close> called with a request object and no keyword
  argument dispatches that object as it is: the request, the backend and the calls sent
  are those of \<open>_make_request\<close> on it. A failure of the dispatch is raised on. When the
  body parses as a mapping whose keys (each once) name ordinary attributes, none of
  them \<open>self\<close>, \<open>__class__\<close>, \<open>__dict__\<close> or \<open>__weakref__\<close>, the result is an envelope
  with the items of the body and the HTTP status under \<open>status_code\<close>; when the body
  is not valid JSON, so that \<open>response.json()\<close> raises a \<open>ValueError\<close>,
  \<open>InvalidResponse\<close> is raised.
\<close>

theorem make_request_on_descriptor:
  fixes self :: "('t::{minus,ord}) Backend"
  shows
  "fst (snd (make_request self (RequestObj request) [] e))
      = RequestObj (fst (snd (p_make_request self request e)))
   \<and> fst (snd (snd (make_request self (RequestObj request) [] e)))
      = fst (snd (snd (p_make_request self request e)))
   \<and> sent (snd (snd (snd (make_request self (RequestObj request) [] e))))
      = sent (snd (snd (snd (p_make_request self request e))))
   \<and> (\<forall>err. fst (p_make_request self request e) = Inl err
         \<longrightarrow> fst (make_request self (RequestObj request) [] e) = Inl err)
   \<and> (\<forall>response info.
         fst (p_make_request self request e) = Inr response
         \<and> response_json response = Inr (PDict info)
         \<and> distinct (map fst info) \<and> ''self'' \<notin> set (map fst info)
         \<and> list_all (\<lambda>key. \<not> special_attribute key) (map fst info)
         \<longrightarrow> fst (make_request self (RequestObj request) [] e)
               = Inr ((map_of info)(''status_code'' \<mapsto> PInt (status_code response))))
   \<and> (\<forall>response msg.
         fst (p_make_request self request e) = Inr response
         \<and> response_json response = Inl msg
         \<longrightarrow> fst (make_request self (RequestObj request) [] e)
               = Inl (errors_InvalidResponse ''Invalid response from backend''))"
  by (auto simp: make_request_state make_request_result BackendResponse_merged)

theorem make_request_on_descriptor_witness:
  "fst (p_make_request example_backend (example_request 1)
          (example_env (answers created_response))) = Inr created_response
   \<and> response_json created_response = Inr (PDict [(''a'', PInt 1)])
   \<and> distinct (map fst [(''a'', PInt 1)]) \<and> ''self'' \<notin> set (map fst [(''a'', PInt 1)])
   \<and> list_all (\<lambda>key. \<not> special_attribute key) (map fst [(''a'', PInt 1)])
   \<and> fst (make_request example_backend (RequestObj (example_request 1)) []
            (example_env (answers created_response)))
       = Inr [''a'' \<mapsto> PInt 1, ''status_code'' \<mapsto> PInt 201]
   \<and> fst (p_make_request example_backend (example_request 1)
          (example_env (answers garbled_response))) = Inr garbled_response
   \<and> response_json garbled_response = Inl ''Expecting value''
   \<and> fst (make_request example_backend (RequestObj (example_request 1)) []
            (example_env (answers garbled_response)))
       = Inl (errors_InvalidResponse ''Invalid response from backend'')"
proof -
  have h1: "fst (p_make_request example_backend (example_request 1)
          (example_env (answers created_response))) = Inr created_response"
    by (rule dispatch_answers)
  have h2: "response_json created_response = Inr (PDict [(''a'', PInt 1)])"
    by (simp add: created_response_def)
  have h3: "distinct (map fst [(''a'', PInt 1)])" "''self'' \<notin> set (map fst [(''a'', PInt 1)])"
    by simp_all
  have h4: "list_all (\<lambda>key. \<not> special_attribute key) (map fst [(''a'', PInt 1)])"
    by (simp add: special_attribute_def)
  have g1: "fst (p_make_request example_backend (example_request 1)
          (example_env (answers garbled_response))) = Inr garbled_response"
    by (rule dispatch_answers)
  have g2: "response_json garbled_response = Inl ''Expecting value''"
    by (simp add: garbled_response_def)
  note t = make_request_on_descriptor
    [of example_backend "example_request 1" "example_env (answers created_response)"]
  note u = make_request_on_descriptor
    [of example_backend "example_request 1" "example_env (answers garbled_response)"]
  from t h1 h2 h3 h4 have c1: "fst (make_request example_backend (RequestObj (example_request 1)) []
            (example_env (answers created_response)))
       = Inr ((map_of [(''a'', PInt 1)])(''status_code'' \<mapsto> PInt (status_code created_response)))"
    by blast
  from u g1 g2 have c2: "fst (make_request example_backend (RequestObj (example_request 1)) []
            (example_env (answers garbled_response)))
       = Inl (errors_InvalidResponse ''Invalid response from backend'')"
    by blast
  from c1 have c1': "fst (make_request example_backend (RequestObj (example_request 1)) []
            (example_env (answers created_response)))
       = Inr [''a'' \<mapsto> PInt 1, ''status_code'' \<mapsto> PInt 201]"
    by (simp add: created_response_def)
  from h1 h2 h3 h4 g1 g2 c1' c2 show ?thesis by blast
qed

text \<open>
  C3, as stated, fails in three ways. \<open>make_request("/things", method="GET")\<close> builds
  no request from its arguments and dispatches nothing: the call of \<open>_make_request\<close>
  with a keyword argument raises a \<open>TypeError\<close>. A body \<open>{"__class__": 1}\<close> parses as a
  mapping, and no envelope is returned: setting the attribute \<open>__class__\<close> raises a
  \<open>TypeError\<close>. A body \<open>[1, 2]\<close> is no mapping, and the failure is an
  \<open>AttributeError\<close>, not an \<open>InvalidResponse\<close>.
\<close>

theorem make_request_keyword_arguments_counterexample:
  "fst (make_request example_backend (PathStr ''/things'') [(''method'', PStr ''GET'')]
          (example_env (answers created_response))) = Inl TypeError
   \<and> sent (snd (snd (snd (make_request example_backend (PathStr ''/things'')
          [(''method'', PStr ''GET'')] (example_env (answers created_response)))))) = []
   \<and> fst (make_request example_backend (RequestObj (example_request 1)) []
            (example_env (answers class_key_response))) = Inl TypeError
   \<and> fst (make_request example_backend (RequestObj (example_request 1)) []
            (example_env (answers list_response))) = Inl AttributeError"
proof -
  have a: "fst (make_request example_backend (PathStr ''/things'') [(''method'', PStr ''GET'')]
          (example_env (answers created_response))) = Inl TypeError
   \<and> sent (snd (snd (snd (make_request example_backend (PathStr ''/things'')
          [(''method'', PStr ''GET'')] (example_env (answers created_response)))))) = []"
    by (simp add: make_request_def example_env_def)
  have b: "fst (make_request example_backend (RequestObj (example_request 1)) []
            (example_env (answers class_key_response))) = Inl TypeError"
    unfolding make_request_result dispatch_answers
    by (simp add: BackendResponse_def BackendResponse_init_def setattr_def class_key_response_def)
  have c: "fst (make_request example_backend (RequestObj (example_request 1)) []
            (example_env (answers list_response))) = Inl AttributeError"
    unfolding make_request_result dispatch_answers
    by (simp add: list_response_def)
  from a b c show ?thesis by blast
qed

subsection \<open>The singleton\<close>

lemma registry_inv_empty: "registry_inv empty_registry"
  by (simp add: registry_inv_def empty_registry_def)

lemma registry_inv_instances:
  assumes "registry_inv r"
  shows "instances_of n r \<le> 1"
proof -
  have "{i. i < length (heap r) \<and> cname (klass (heap r ! i)) = n}
          \<subseteq> {i. instance_attr r n = Some i}"
    using assms by (auto simp: registry_inv_def)
  moreover have "{i. instance_attr r n = Some i} \<subseteq> (case instance_attr r n of None \<Rightarrow> {} | Some i \<Rightarrow> {i})"
    by (auto split: option.splits)
  ultimately have sub: "{i. i < length (heap r) \<and> cname (klass (heap r ! i)) = n}
          \<subseteq> (case instance_attr r n of None \<Rightarrow> {} | Some i \<Rightarrow> {i})"
    by (rule subset_trans)
  have "card {i. i < length (heap r) \<and> cname (klass (heap r ! i)) = n}
          \<le> card (case instance_attr r n of None \<Rightarrow> {} | Some i \<Rightarrow> {i})"
    by (rule card_mono [OF _ sub]) (simp split: option.splits)
  also have "\<dots> \<le> 1"
    by (simp split: option.splits)
  finally show ?thesis
    by (simp add: instances_of_def length_filter_conv_card)
qed

lemma lookup_own:
  "instance_attr r (cname cls) = Some i \<Longrightarrow> lookup_p_instance cls r = Some i"
  by (simp add: lookup_p_instance_def)

lemma lookup_depends_on_attr:
  "instance_attr r' = instance_attr r \<Longrightarrow> lookup_p_instance cls r' = lookup_p_instance cls r"
  by (simp add: lookup_p_instance_def cong: option.case_cong)

lemma isinstance_depends_on_classes:
  assumes "length (heap r') = length (heap r)"
    and "\<forall>j < length (heap r). klass (heap r' ! j) = klass (heap r ! j)"
  shows "isinstance r' x cls = isinstance r x cls"
  using assms by (auto simp: isinstance_def split: option.splits)

lemma Backend_init_facts:
  assumes "Backend_init i p (r, e) = (r', e')"
  shows "instance_attr r' = instance_attr r"
    and "length (heap r') = length (heap r)"
    and "\<forall>j < length (heap r). klass (heap r' ! j) = klass (heap r ! j)"
    and "i < length (heap r) \<Longrightarrow> url_prefix (heap r' ! i) = p"
proof -
  obtain s e1 where s: "SessionWithMaxConnectionAge_new 10 e = (s, e1)"
    by (cases "SessionWithMaxConnectionAge_new (10::'a) e")
  from assms s have r': "r' = r\<lparr>heap := (heap r)[i := (heap r ! i)\<lparr>session := Some s, url_prefix := p\<rparr>]\<rparr>"
    by (cases "i < length (heap r)") (auto simp: Backend_init_def Let_def list_update_beyond)
  show "instance_attr r' = instance_attr r" and "length (heap r') = length (heap r)"
    by (simp_all add: r')
  show "\<forall>j < length (heap r). klass (heap r' ! j) = klass (heap r ! j)"
  proof (intro allI impI)
    fix j
    assume "j < length (heap r)"
    then show "klass (heap r' ! j) = klass (heap r ! j)"
      by (cases "i = j") (simp_all add: r')
  qed
  show "i < length (heap r) \<Longrightarrow> url_prefix (heap r' ! i) = p"
    by (simp add: r')
qed

lemma Backend_new_facts:
  assumes "Backend_new cls p r = (x, r')"
  shows "\<exists>i. x = Some i \<and> lookup_p_instance cls r' = Some i \<and> isinstance r' (Some i) cls"
    and "isinstance r (lookup_p_instance cls r) cls \<Longrightarrow> r' = r"
proof -
  show "isinstance r (lookup_p_instance cls r) cls \<Longrightarrow> r' = r"
    using assms by (simp add: Backend_new_def Let_def)
  show "\<exists>i. x = Some i \<and> lookup_p_instance cls r' = Some i \<and> isinstance r' (Some i) cls"
  proof (cases "isinstance r (lookup_p_instance cls r) cls")
    case True
    with assms have "r' = r" and "x = lookup_p_instance cls r"
      by (auto simp: Backend_new_def Let_def)
    with True show ?thesis
      by (cases "lookup_p_instance cls r") (simp_all add: isinstance_def)
  next
    case False
    with assms have r': "r' = r\<lparr>heap := heap r @ [\<lparr>klass = cls, url_prefix = p, session = None\<rparr>],
                      instance_attr := (instance_attr r)(cname cls \<mapsto> length (heap r))\<rparr>"
      and x: "x = lookup_p_instance cls r'"
      by (auto simp: Backend_new_def Let_def)
    have "lookup_p_instance cls r' = Some (length (heap r))"
      by (rule lookup_own) (simp add: r')
    moreover have "isinstance r' (Some (length (heap r))) cls"
      by (simp add: isinstance_def r')
    ultimately show ?thesis using x by simp
  qed
qed

lemma construct_facts:
  fixes r :: "('t::numeral) registry"
  assumes "construct cls p (r, e) = (x, r', e')"
  shows "\<exists>i. x = Some i \<and> i < length (heap r') \<and> lookup_p_instance cls r' = Some i
           \<and> isinstance r' (Some i) cls \<and> url_prefix (heap r' ! i) = p"
    and "isinstance r (lookup_p_instance cls r) cls \<Longrightarrow> length (heap r') = length (heap r)"
proof -
  obtain y r0 where n: "Backend_new cls p r = (y, r0)" by (cases "Backend_new cls p r")
  from Backend_new_facts(1) [OF n] obtain i where
    y: "y = Some i" and l: "lookup_p_instance cls r0 = Some i" and inst: "isinstance r0 (Some i) cls"
    by blast
  obtain r1 e1 where init: "Backend_init i p (r0, e) = (r1, e1)"
    by (cases "Backend_init i p (r0, e)")
  from assms n y inst init have res: "x = Some i" "r' = r1" "e' = e1"
    by (simp_all add: construct_def)
  from inst have i: "i < length (heap r0)" by (simp add: isinstance_def)
  note f = Backend_init_facts [OF init]
  have "lookup_p_instance cls r1 = Some i"
    using lookup_depends_on_attr [OF f(1)] l by simp
  moreover have "isinstance r1 (Some i) cls"
    using isinstance_depends_on_classes [OF f(2,3)] inst by simp
  moreover have "url_prefix (heap r1 ! i) = p"
    using f(4) i by simp
  moreover have "i < length (heap r1)" using i f(2) by simp
  ultimately show "\<exists>i. x = Some i \<and> i < length (heap r') \<and> lookup_p_instance cls r' = Some i
           \<and> isinstance r' (Some i) cls \<and> url_prefix (heap r' ! i) = p"
    using res by simp
  show "isinstance r (lookup_p_instance cls r) cls \<Longrightarrow> length (heap r') = length (heap r)"
    using Backend_new_facts(2) [OF n] f(2) res by simp
qed

lemma get_instance_existing:
  "lookup_p_instance cls r = Some i \<Longrightarrow> get_instance cls args (r, e) = (Inr (Some i), r, e)"
  by (simp add: get_instance_def)

lemma singleton_per_subclass_pair:
  fixes r :: "('t::numeral) registry"
  shows
  "(case construct cls p1 (r, e) of
      (x1, r1, e1) \<Rightarrow>
        map_option url_prefix (deref r1 x1) = Some p1
      \<and> get_instance cls args (r1, e1) = (Inr x1, r1, e1)
      \<and> (case construct cls p2 (r1, e1) of
           (x2, r2, e2) \<Rightarrow>
             x2 = x1 \<and> length (heap r2) = length (heap r1)
           \<and> map_option url_prefix (deref r2 x2) = Some p2))"
proof -
  obtain x1 r1 e1 where c1: "construct cls p1 (r, e) = (x1, r1, e1)"
    by (cases "construct cls p1 (r, e)")
  obtain x2 r2 e2 where c2: "construct cls p2 (r1, e1) = (x2, r2, e2)"
    by (cases "construct cls p2 (r1, e1)")
  from construct_facts(1) [OF c1] obtain i where
    i: "x1 = Some i" "i < length (heap r1)" "lookup_p_instance cls r1 = Some i"
       "isinstance r1 (Some i) cls" "url_prefix (heap r1 ! i) = p1"
    by blast
  from construct_facts(1) [OF c2] obtain j where
    j: "x2 = Some j" "j < length (heap r2)" "lookup_p_instance cls r2 = Some j"
       "url_prefix (heap r2 ! j) = p2"
    by blast
  have len: "length (heap r2) = length (heap r1)"
    using construct_facts(2) [OF c2] i(3,4) by simp
  have same: "x2 = x1"
  proof -
    from i(3,4) have "Backend_new cls p2 r1 = (Some i, r1)"
      by (simp add: Backend_new_def Let_def)
    with c2 i(4) show ?thesis
      by (simp add: construct_def i(1) split: prod.splits)
  qed
  show ?thesis
    using i j len same get_instance_existing [OF i(3), of args e1]
    by (simp add: c1 c2 deref_def)
qed


lemma registry_invD1:
  "registry_inv r \<Longrightarrow> i < length (heap r) \<Longrightarrow> instance_attr r (cname (klass (heap r ! i))) = Some i"
  unfolding registry_inv_def by blast

lemma registry_invD2:
  "registry_inv r \<Longrightarrow> instance_attr r n = Some i \<Longrightarrow> i < length (heap r) \<and> cname (klass (heap r ! i)) = n"
  unfolding registry_inv_def by blast

lemma registry_invI:
  assumes "\<And>i. i < length (heap r) \<Longrightarrow> instance_attr r (cname (klass (heap r ! i))) = Some i"
    and "\<And>n i. instance_attr r n = Some i \<Longrightarrow> i < length (heap r) \<and> cname (klass (heap r ! i)) = n"
  shows "registry_inv r"
  unfolding registry_inv_def using assms by blast

lemma registry_inv_Backend_new:
  assumes inv: "registry_inv r" and n: "Backend_new cls p r = (x, r')"
  shows "registry_inv r'"
proof (cases "isinstance r (lookup_p_instance cls r) cls")
  case True
  with Backend_new_facts(2) [OF n] inv show ?thesis by simp
next
  case False
  have none: "instance_attr r (cname cls) = None"
  proof (rule ccontr)
    assume "instance_attr r (cname cls) \<noteq> None"
    then obtain i where i: "instance_attr r (cname cls) = Some i" by auto
    from registry_invD2 [OF inv i]
    have "isinstance r (Some i) cls"
      by (simp add: isinstance_def)
    with lookup_own [OF i] False show False by simp
  qed
  from False n have r': "r' = r\<lparr>heap := heap r @ [\<lparr>klass = cls, url_prefix = p, session = None\<rparr>],
                      instance_attr := (instance_attr r)(cname cls \<mapsto> length (heap r))\<rparr>"
    by (auto simp: Backend_new_def Let_def)
  have old: "cname (klass (heap r ! i)) \<noteq> cname cls" if "i < length (heap r)" for i
    using registry_invD1 [OF inv that] none by auto
  show ?thesis
  proof (rule registry_invI)
    fix i
    assume "i < length (heap r')"
    then have "i < length (heap r) \<or> i = length (heap r)"
      by (auto simp: r')
    then consider "i < length (heap r)" | "i = length (heap r)"
      by blast
    then show "instance_attr r' (cname (klass (heap r' ! i))) = Some i"
    proof cases
      case 1
      with registry_invD1 [OF inv 1] old [OF 1] show ?thesis
        by (simp add: r' nth_append)
    next
      case 2
      then show ?thesis by (simp add: r')
    qed
  next
    fix n i
    assume a: "instance_attr r' n = Some i"
    show "i < length (heap r') \<and> cname (klass (heap r' ! i)) = n"
    proof (cases "n = cname cls")
      case True
      with a have "i = length (heap r)" by (simp add: r')
      with True show ?thesis by (simp add: r')
    next
      case False
      with a have "instance_attr r n = Some i" by (simp add: r')
      from registry_invD2 [OF inv this] show ?thesis
        by (simp add: r' nth_append)
    qed
  qed
qed

lemma registry_inv_Backend_init:
  assumes inv: "registry_inv r" and init: "Backend_init i p (r, e) = (r', e')"
  shows "registry_inv r'"
proof (rule registry_invI)
  note f = Backend_init_facts(1,2,3) [OF init]
  fix j
  assume "j < length (heap r')"
  then have j: "j < length (heap r)" using f(2) by simp
  with f(3) have "klass (heap r' ! j) = klass (heap r ! j)" by blast
  with registry_invD1 [OF inv j] f(1) show "instance_attr r' (cname (klass (heap r' ! j))) = Some j"
    by simp
next
  note f = Backend_init_facts(1,2,3) [OF init]
  fix n j
  assume "instance_attr r' n = Some j"
  then have "instance_attr r n = Some j" using f(1) by simp
  from registry_invD2 [OF inv this] have j: "j < length (heap r)"
    and c: "cname (klass (heap r ! j)) = n" by simp_all
  from f(3) j have "klass (heap r' ! j) = klass (heap r ! j)" by blast
  with j c f(2) show "j < length (heap r') \<and> cname (klass (heap r' ! j)) = n"
    by simp
qed

lemma registry_inv_construct:
  fixes r :: "('t::numeral) registry"
  assumes inv: "registry_inv r" and c: "construct cls p (r, e) = (x, r', e')"
  shows "registry_inv r'"
proof -
  obtain y r0 where n: "Backend_new cls p r = (y, r0)" by (cases "Backend_new cls p r")
  note inv0 = registry_inv_Backend_new [OF inv n]
  from Backend_new_facts(1) [OF n] obtain i where
    y: "y = Some i" and inst: "isinstance r0 (Some i) cls"
    by blast
  obtain r1 e1 where init: "Backend_init i p (r0, e) = (r1, e1)"
    by (cases "Backend_init i p (r0, e)")
  from c n y inst init have "r' = r1"
    by (simp add: construct_def)
  with registry_inv_Backend_init [OF inv0 init] show ?thesis by simp
qed

lemma registry_inv_step:
  fixes w :: "('t::numeral) registry \<times> 't env"
  assumes "registry_inv (fst w)"
  shows "registry_inv (fst (step a w))"
proof (cases a)
  case (Construct c p)
  obtain r e where w: "w = (r, e)" by (cases w)
  obtain x r' e' where c: "construct c p (r, e) = (x, r', e')"
    by (cases "construct c p (r, e)")
  from registry_inv_construct [OF _ c] assms show ?thesis
    by (simp add: Construct w c)
next
  case (GetInstance c args)
  obtain r e where w: "w = (r, e)" by (cases w)
  show ?thesis
  proof (cases "lookup_p_instance c r")
    case (Some i)
    with assms show ?thesis
      by (simp add: GetInstance w get_instance_def)
  next
    case None
    show ?thesis
    proof (cases "create_instance c")
      case nc: None
      with None assms show ?thesis
        by (simp add: GetInstance w get_instance_def p_create_instance_def)
    next
      case (Some p)
      obtain x r' e' where c: "construct c p (r, e) = (x, r', e')"
        by (cases "construct c p (r, e)")
      from registry_inv_construct [OF _ c] assms None Some show ?thesis
        by (simp add: GetInstance w get_instance_def p_create_instance_def c)
    qed
  qed
qed

lemma registry_inv_run:
  fixes w :: "('t::numeral) registry \<times> 't env"
  shows "registry_inv (fst w) \<Longrightarrow> registry_inv (fst (run ops w))"
  unfolding run_def
  by (induction ops arbitrary: w) (simp_all add: registry_inv_step)

text \<open>
  The singleton as the code has it. In a process that starts with no instance and makes any
  sequence of constructions and \<open>get_instance\<close> calls, at most one instance exists per
  subclass. After a first construction with a prefix \<open>p1\<close>, from any state, the
  instance has the prefix \<open>p1\<close>; \<open>get_instance\<close> then returns that same instance and
  changes nothing, so the prefix stays \<open>p1\<close>; a later construction with a prefix \<open>p2\<close>
  returns that same instance and creates no object, and \<open>__init__\<close> runs on it again, so
  its prefix is then \<open>p2\<close>.
\<close>

theorem singleton_per_subclass:
  fixes r :: "('t::numeral) registry" and e0 :: "('u::numeral) env"
  shows
  "instances_of n (fst (run ops (empty_registry, e0))) \<le> 1
   \<and> (case construct cls p1 (r, e) of
      (x1, r1, e1) \<Rightarrow>
        map_option url_prefix (deref r1 x1) = Some p1
      \<and> get_instance cls args (r1, e1) = (Inr x1, r1, e1)
      \<and> (case construct cls p2 (r1, e1) of
           (x2, r2, e2) \<Rightarrow>
             x2 = x1 \<and> length (heap r2) = length (heap r1)
           \<and> map_option url_prefix (deref r2 x2) = Some p2))"
proof -
  have "registry_inv (fst (run ops (empty_registry, e0)))"
    by (rule registry_inv_run) (simp add: registry_inv_empty)
  then have "instances_of n (fst (run ops (empty_registry, e0))) \<le> 1"
    by (rule registry_inv_instances)
  then show ?thesis
    by (rule conjI [OF _ singleton_per_subclass_pair])
qed

text \<open>
  C2, on the code: \<open>MockBackend("/v1/")\<close> followed by \<open>MockBackend("/v2/")\<close>, from a
  process with no instance. Both calls return the same instance, the only one; it has
  the prefix \<open>/v1/\<close> after the first call and the prefix \<open>/v2/\<close> after the second,
  since \<open>__init__\<close> runs again on the instance that \<open>__new__\<close> returns.
\<close>

theorem later_construction_overwrites_url_prefix:
  "(case construct MockBackend ''/v1/'' (empty_registry, example_env (answers ok_response)) of
      (x1, r1, e1) \<Rightarrow>
        (case construct MockBackend ''/v2/'' (r1, e1) of
           (x2, r2, e2) \<Rightarrow>
             x1 = Some 0 \<and> x2 = Some 0 \<and> length (heap r2) = 1
           \<and> map_option url_prefix (deref r1 x1) = Some ''/v1/''
           \<and> map_option url_prefix (deref r2 x2) = Some ''/v2/''))"
  by code_simp

end
